theory Spec2Isabelle
  imports Main
begin

section \<open>Values thrown by the TypeScript code\<close>

text \<open>
  A rejected promise or a \<^verbatim>\<open>throw\<close> is the left injection of a sum; the value
  carried is one of the error objects the sources construct or receive.
  \<^verbatim>\<open>NasaNoDataError\<close> is the class of \<^verbatim>\<open>services/supabase.ts\<close>; its message
  and date come from a JSON body and may be undefined.
\<close>

datatype js_error =
    NasaNoDataError "string option" "string option"
  | Error string
  | TypeError string
  | SyntaxError string
  | NonError string

fun message :: "js_error \<Rightarrow> string option" where
  "message (NasaNoDataError m d) = m"
| "message (Error m) = Some m"
| "message (TypeError m) = Some m"
| "message (SyntaxError m) = Some m"
| "message (NonError v) = None"

fun instanceof_NasaNoDataError :: "js_error \<Rightarrow> bool" where
  "instanceof_NasaNoDataError (NasaNoDataError m d) = True"
| "instanceof_NasaNoDataError e = False"

fun instanceof_Error :: "js_error \<Rightarrow> bool" where
  "instanceof_Error (NonError v) = False"
| "instanceof_Error e = True"

text \<open>JavaScript truthiness of an optional string: defined and not empty.\<close>

fun truthy :: "string option \<Rightarrow> bool" where
  "truthy None = False"
| "truthy (Some s) = (s \<noteq> [])"

text \<open>\<^verbatim>\<open>a || b\<close> on optional strings.\<close>

definition js_or :: "string option \<Rightarrow> string option \<Rightarrow> string option" where
  "js_or a b = (if truthy a then a else b)"

text \<open>\<^verbatim>\<open>String(n)\<close> for a non-negative integer.\<close>

fun string_of_nat :: "nat \<Rightarrow> string" where
  "string_of_nat n =
     (if n < 10 then [char_of (48 + n)]
      else string_of_nat (n div 10) @ [char_of (48 + n mod 10)])"

declare string_of_nat.simps [simp del]

section \<open>Records exchanged with the resolution endpoint\<close>

text \<open>
  \<^verbatim>\<open>ImageDetails\<close>, \<^verbatim>\<open>NasaImageResponse\<close> and \<^verbatim>\<open>NasaApiError\<close> of
  \<^verbatim>\<open>services/supabase.ts\<close>. Field names carry a prefix because the sources use
  \<^verbatim>\<open>date\<close>, \<^verbatim>\<open>url\<close>, \<^verbatim>\<open>data\<close> and \<^verbatim>\<open>error\<close> as variable names too.
\<close>

record ImageDetails =
  img_id :: string
  img_date :: string
  img_title :: string
  img_explanation :: string
  img_url :: string
  img_media_type :: string
  img_copyright :: "string option"
  img_hdurl :: "string option"
  img_storage_path :: "string option"
  img_thumbnail_storage_path :: "string option"
  img_created_at :: string
  img_updated_at :: string

record NasaImageResponse =
  resp_data :: ImageDetails
  resp_cached :: bool

record NasaApiError =
  err_error :: "string option"
  err_errorCode :: "string option"
  err_date :: "string option"

text \<open>
  What \<^verbatim>\<open>supabase.functions.invoke\<close> resolves to: a data value (null on failure) and an
  error of one of the three classes of the client library. An HTTP error carries the
  response, whose body \<^verbatim>\<open>error.context.json()\<close> parses: it is not JSON, or the JSON
  value null, or an object read through the fields of \<^verbatim>\<open>NasaApiError\<close>.
\<close>

datatype json_body = NotJson | JsonNull | JsonObject NasaApiError

datatype functions_error =
    FunctionsHttpError json_body
  | FunctionsRelayError string
  | FunctionsFetchError string

record invoke_result =
  inv_data :: "NasaImageResponse option"
  inv_error :: "functions_error option"

section \<open>The device and its world\<close>

text \<open>
  The device is what the client modules import and do not define: the platform's cache
  directory, the answer of \<^verbatim>\<open>downloadAsync\<close> for each URL, the public-URL resolver of
  the blob store, the answer of the resolution endpoint for each date string, the clock,
  the calendar methods of \<^verbatim>\<open>Date\<close> in the device's time zone, and the text the engine
  puts into the TypeError for reading a property of null. A transfer either rejects or
  completes with an HTTP status; a completed transfer with status 200 leaves a file at its
  target, and \<open>keeps_failed_body\<close> says whether the platform also leaves one for the
  other statuses. A \<^verbatim>\<open>Date\<close> is its time value, an integer number of milliseconds;
  \<open>now dev n\<close> is the reading of \<^verbatim>\<open>new Date()\<close> taken while attempt \<open>n\<close> of a
  navigation action runs; \<open>setDate dev t n\<close> is the time value of the date \<open>t\<close> after
  \<^verbatim>\<open>setDate(n)\<close>, whatever the time zone makes of it.
\<close>

datatype reply = Unreachable string | Status nat

record device =
  cacheDirectory :: string
  net :: "string \<Rightarrow> reply"
  keeps_failed_body :: bool
  getPublicUrl :: "string \<Rightarrow> string"
  functions_invoke :: "string \<Rightarrow> invoke_result"
  now :: "nat \<Rightarrow> int"
  getFullYear :: "int \<Rightarrow> nat"
  getMonth :: "int \<Rightarrow> nat"
  getDate :: "int \<Rightarrow> nat"
  setDate :: "int \<Rightarrow> int \<Rightarrow> int"
  null_read_text :: string

text \<open>
  The world is what the client changes outside its own screen: the paths that exist in
  the file system, the calls of \<^verbatim>\<open>downloadAsync\<close> made so far (URL and target, oldest
  first), and the date strings sent to the resolution endpoint so far.
\<close>

record world =
  entries :: "string set"
  downloads :: "(string \<times> string) list"
  invocations :: "string list"

record download_result =
  dl_status :: nat
  dl_uri :: string

section \<open>The client resolver (\<^verbatim>\<open>services/supabase.ts\<close>)\<close>

definition getNasaImageOfDay :: "device \<Rightarrow> string \<Rightarrow> world \<Rightarrow> (js_error + NasaImageResponse option) \<times> world" where
  "getNasaImageOfDay dev date w =
     (let r = functions_invoke dev date;
          w1 = w\<lparr>invocations := invocations w @ [date]\<rparr>
      in case inv_error r of
           Some (FunctionsHttpError body) \<Rightarrow>
             (case body of
                NotJson \<Rightarrow> (Inl (SyntaxError ''Unexpected token''), w1)
              | JsonNull \<Rightarrow> (Inl (TypeError ''Cannot destructure null''), w1)
              | JsonObject j \<Rightarrow>
                  if err_errorCode j = Some ''NASA_NO_DATA''
                  then (Inl (NasaNoDataError (err_error j) (err_date j)), w1)
                  else (Inr (inv_data r), w1))
         | Some (FunctionsRelayError m) \<Rightarrow> (Inr (inv_data r), w1)
         | Some (FunctionsFetchError m) \<Rightarrow> (Inr (inv_data r), w1)
         | None \<Rightarrow> (Inr (inv_data r), w1))"

definition getNasaImagePublicUrl :: "device \<Rightarrow> string \<Rightarrow> string" where
  "getNasaImagePublicUrl dev storagePath = getPublicUrl dev storagePath"

section \<open>The local image cache (\<^verbatim>\<open>services/imageCache.ts\<close>)\<close>

definition CACHE_DIR :: "device \<Rightarrow> string" where
  "CACHE_DIR dev = cacheDirectory dev @ ''nasa-images/''"

definition getInfoAsync_exists :: "string \<Rightarrow> world \<Rightarrow> bool" where
  "getInfoAsync_exists p w = (p \<in> entries w)"

definition makeDirectoryAsync :: "string \<Rightarrow> world \<Rightarrow> world" where
  "makeDirectoryAsync p w = w\<lparr>entries := insert p (entries w)\<rparr>"

definition downloadAsync :: "device \<Rightarrow> string \<Rightarrow> string \<Rightarrow> world \<Rightarrow> (js_error + download_result) \<times> world" where
  "downloadAsync dev url fileUri w =
     (let w1 = w\<lparr>downloads := downloads w @ [(url, fileUri)]\<rparr>
      in case net dev url of
           Unreachable m \<Rightarrow> (Inl (Error m), w1)
         | Status c \<Rightarrow>
             (Inr \<lparr>dl_status = c, dl_uri = fileUri\<rparr>,
              if c = 200 \<or> keeps_failed_body dev
              then w1\<lparr>entries := insert fileUri (entries w1)\<rparr> else w1))"

definition ensureCacheDir :: "device \<Rightarrow> world \<Rightarrow> world" where
  "ensureCacheDir dev w =
     (if \<not> getInfoAsync_exists (CACHE_DIR dev) w
      then makeDirectoryAsync (CACHE_DIR dev) w else w)"

definition getCacheFilePath :: "device \<Rightarrow> string \<Rightarrow> string" where
  "getCacheFilePath dev date = CACHE_DIR dev @ date @ ''.jpg''"

definition downloadAndCache :: "device \<Rightarrow> string \<Rightarrow> string \<Rightarrow> world \<Rightarrow> (js_error + string) \<times> world" where
  "downloadAndCache dev url date w =
     (let w1 = ensureCacheDir dev w;
          localUri = getCacheFilePath dev date
      in case downloadAsync dev url localUri w1 of
           (Inl e, w2) \<Rightarrow> (Inl e, w2)
         | (Inr downloadResult, w2) \<Rightarrow>
             if dl_status downloadResult \<noteq> 200
             then (Inl (Error (''Download failed with status ''
                                @ string_of_nat (dl_status downloadResult))), w2)
             else (Inr (dl_uri downloadResult), w2))"

definition getCachedImage :: "device \<Rightarrow> string \<Rightarrow> world \<Rightarrow> string option" where
  "getCachedImage dev date w =
     (let localUri = getCacheFilePath dev date
      in if getInfoAsync_exists localUri w then Some localUri else None)"

text \<open>
  \<^verbatim>\<open>getImage\<close>: the cache check, then the remote URL inside its own try, whose catch
  only warns and falls through to the storage path; a failure of the storage download is
  rethrown, and with no storage path the function throws its own error.
\<close>

definition getImage :: "device \<Rightarrow> string option \<Rightarrow> string option \<Rightarrow> string \<Rightarrow> world \<Rightarrow> (js_error + string) \<times> world" where
  "getImage dev nasaUrl storagePath date w =
     (let cached = getCachedImage dev date w;
          fromStorage = (\<lambda>w'.
            if truthy storagePath
            then downloadAndCache dev (getNasaImagePublicUrl dev (the storagePath)) date w'
            else (Inl (Error ''No valid image URL available''), w'))
      in if truthy cached then (Inr (the cached), w)
         else if truthy nasaUrl
         then (case downloadAndCache dev (the nasaUrl) date w of
                 (Inr localUri, w1) \<Rightarrow> (Inr localUri, w1)
               | (Inl e, w1) \<Rightarrow> fromStorage w1)
         else fromStorage w)"

definition preloadImage :: "device \<Rightarrow> string option \<Rightarrow> string option \<Rightarrow> string \<Rightarrow> world \<Rightarrow> (js_error + unit) \<times> world" where
  "preloadImage dev nasaUrl storagePath date w =
     (case getImage dev nasaUrl storagePath date w of
        (Inr localUri, w1) \<Rightarrow> (Inr (), w1)
      | (Inl e, w1) \<Rightarrow> (Inr (), w1))"

section \<open>The screen (\<^verbatim>\<open>screens/NasaApodScreen.tsx\<close>)\<close>

definition MAX_DAYS_BACK :: int where
  "MAX_DAYS_BACK = 50"

definition MAX_RETRY_DAYS :: nat where
  "MAX_RETRY_DAYS = 20"

text \<open>\<^verbatim>\<open>s.padStart(n, c)\<close> for a one-character pad.\<close>

definition padStart :: "nat \<Rightarrow> char \<Rightarrow> string \<Rightarrow> string" where
  "padStart n c s = replicate (n - length s) c @ s"

definition formatDate :: "device \<Rightarrow> int \<Rightarrow> string" where
  "formatDate dev date =
     (let year = string_of_nat (getFullYear dev date);
          month = padStart 2 (CHR ''0'') (string_of_nat (getMonth dev date + 1));
          day = padStart 2 (CHR ''0'') (string_of_nat (getDate dev date))
      in year @ ''-'' @ month @ ''-'' @ day)"

text \<open>
  \<^verbatim>\<open>addDays\<close> copies the date and calls \<^verbatim>\<open>setDate(getDate() + days)\<close> on the
  copy: the move is by calendar days of the device's time zone, not by a fixed number of
  milliseconds.
\<close>

definition addDays :: "device \<Rightarrow> int \<Rightarrow> int \<Rightarrow> int" where
  "addDays dev date days = setDate dev date (int (getDate dev date) + days)"

text \<open>
  The React state of the component, and the line
  \<^verbatim>\<open>[NasaApod] Loading image for ${dateStr} (retry: ${retryCount})\<close> of its console.
\<close>

record screen =
  currentDate :: int
  imageData :: "ImageDetails option"
  localImageUri :: "string option"
  loading :: bool
  error :: "string option"
  console :: "(string \<times> nat) list"

text \<open>
  \<^verbatim>\<open>preloadImageForDate\<close>: one call of the resolver, the image download for an image,
  everything inside a try whose catch only warns. The value is the settlement of the
  promise the async function returns.
\<close>

definition preloadImageForDate :: "device \<Rightarrow> int \<Rightarrow> world \<Rightarrow> (js_error + unit) \<times> world" where
  "preloadImageForDate dev date w =
     (let dateStr = formatDate dev date
      in case getNasaImageOfDay dev dateStr w of
           (Inl err, w1) \<Rightarrow> (Inr (), w1)
         | (Inr None, w1) \<Rightarrow> (Inr (), w1)
         | (Inr (Some response), w1) \<Rightarrow>
             (let data = resp_data response
              in if img_media_type data = ''image''
                 then (case preloadImage dev (js_or (img_hdurl data) (Some (img_url data)))
                              (img_storage_path data) dateStr w1 of
                         (Inl err, w2) \<Rightarrow> (Inr (), w2)
                       | (Inr u, w2) \<Rightarrow> (Inr (), w2))
                 else (Inr (), w1)))"

text \<open>
  \<^verbatim>\<open>preloadAdjacentImages\<close> starts the two preloads without awaiting them; \<open>today\<close> is
  its reading of \<^verbatim>\<open>new Date()\<close>. The two flows are composed in the order they are
  started.
\<close>

definition preloadAdjacentImages :: "device \<Rightarrow> int \<Rightarrow> int \<Rightarrow> world \<Rightarrow> (js_error + unit) \<times> world" where
  "preloadAdjacentImages dev date today w =
     (let yesterday = addDays dev date (- 1);
          tomorrow = addDays dev date 1;
          oldestDate = addDays dev today (- MAX_DAYS_BACK);
          w1 = (if yesterday \<ge> oldestDate then snd (preloadImageForDate dev yesterday w) else w);
          w2 = (if tomorrow \<le> today then snd (preloadImageForDate dev tomorrow w1) else w1)
      in (Inr (), w2))"

text \<open>
  The try block of \<^verbatim>\<open>loadImageForDate\<close>. Reading \<^verbatim>\<open>response.data\<close> of a null response
  throws a TypeError.
\<close>

definition loadImageForDate_try :: "device \<Rightarrow> int \<Rightarrow> nat \<Rightarrow> screen \<times> world \<Rightarrow> (js_error + unit) \<times> screen \<times> world" where
  "loadImageForDate_try dev date retryCount = (\<lambda>(ui, w).
     (let dateStr = formatDate dev date;
          ui1 = ui\<lparr>console := console ui @ [(dateStr, retryCount)]\<rparr>
      in case getNasaImageOfDay dev dateStr w of
           (Inl err, w1) \<Rightarrow> (Inl err, ui1, w1)
         | (Inr None, w1) \<Rightarrow>
             (Inl (TypeError (null_read_text dev)), ui1, w1)
         | (Inr (Some response), w1) \<Rightarrow>
             (let data = resp_data response;
                  ui2 = ui1\<lparr>imageData := Some data\<rparr>
              in if img_media_type data = ''image''
                 then (case getImage dev (js_or (img_hdurl data) (Some (img_url data)))
                              (img_storage_path data) dateStr w1 of
                         (Inl err, w2) \<Rightarrow> (Inl err, ui2, w2)
                       | (Inr localUri, w2) \<Rightarrow>
                           (Inr (), ui2\<lparr>localImageUri := Some localUri\<rparr>,
                            snd (preloadAdjacentImages dev date (now dev retryCount) w2)))
                 else (Inr (), ui2\<lparr>localImageUri := Some (img_url data)\<rparr>,
                       snd (preloadAdjacentImages dev date (now dev retryCount) w1)))))"

definition retryMessage :: "nat \<Rightarrow> string" where
  "retryMessage retryCount =
     (if retryCount \<ge> MAX_RETRY_DAYS
      then ''No NASA images available for the last '' @ string_of_nat MAX_RETRY_DAYS @ '' days''
      else ''No NASA images available in the allowed date range'')"

definition otherMessage :: "js_error \<Rightarrow> string option" where
  "otherMessage err = (if instanceof_Error err then message err else Some ''Failed to load image'')"

function loadImageForDate :: "device \<Rightarrow> int \<Rightarrow> nat \<Rightarrow> screen \<times> world \<Rightarrow> screen \<times> world" where
  "loadImageForDate dev date retryCount (ui, w) =
     (let ui0 = ui\<lparr>loading := True, error := None, localImageUri := None\<rparr>
      in case loadImageForDate_try dev date retryCount (ui0, w) of
           (Inr u, ui1, w1) \<Rightarrow> (ui1\<lparr>loading := False\<rparr>, w1)
         | (Inl err, ui1, w1) \<Rightarrow>
             if instanceof_NasaNoDataError err
             then (let exhausted = (ui1\<lparr>error := Some (retryMessage retryCount), loading := False\<rparr>, w1);
                       previousDay = addDays dev date (- 1);
                       oldestDate = addDays dev (now dev retryCount) (- MAX_DAYS_BACK)
                   in if retryCount < MAX_RETRY_DAYS
                      then if previousDay \<ge> oldestDate
                           then (case loadImageForDate dev previousDay (retryCount + 1)
                                        (ui1\<lparr>currentDate := previousDay\<rparr>, w1) of
                                   (ui2, w2) \<Rightarrow> (ui2\<lparr>loading := False\<rparr>, w2))
                           else exhausted
                      else exhausted)
             else (ui1\<lparr>error := otherMessage err, loading := False\<rparr>, w1))"
  by pat_completeness auto
termination
  by (relation "measure (\<lambda>(dev, date, retryCount, st). MAX_RETRY_DAYS - retryCount)") auto

declare loadImageForDate.simps [simp del]

section \<open>The resolution endpoint (the edge function \<^verbatim>\<open>getNasaImageOfDay\<close>)\<close>

record NasaApodResponse =
  apod_date :: string
  apod_explanation :: string
  apod_hdurl :: "string option"
  apod_media_type :: string
  apod_service_version :: string
  apod_title :: string
  apod_url :: string
  apod_copyright :: "string option"

record pg_error =
  pg_code :: string
  pg_message :: string

datatype fetched = Rejects string | Responds nat string

datatype store_call = Select string | Insert string | Upload string

text \<open>
  The edge is what the handler reads and does not define: the environment variable, the
  answer of \<^verbatim>\<open>fetch\<close> for each URL (a rejection, or a status and a body), the JSON
  parser on provider bodies, a failure injected into a call of the record store or of the
  blob store, a row that another request commits between this request's select and its
  insert, and the defaults the table fills in.
\<close>

record edge =
  NASA_API_KEY :: "string option"
  fetch :: "string \<Rightarrow> fetched"
  parse_apod :: "string \<Rightarrow> NasaApodResponse option"
  store_fault :: "store_call \<Rightarrow> pg_error option"
  racing_insert :: "ImageDetails option"
  gen_random_uuid :: string
  db_now :: string

text \<open>
  The backend state: the table \<^verbatim>\<open>nasa_images\<close> keyed by its unique \<^verbatim>\<open>date\<close> column,
  the object names of the bucket, and the calls made so far to the stores and to
  \<^verbatim>\<open>fetch\<close>.
\<close>

record backend =
  nasa_images :: "string \<rightharpoonup> ImageDetails"
  bucket :: "string set"
  store_calls :: "store_call list"
  fetches :: "string list"

record request =
  req_method :: string
  req_date :: "string option"

datatype body = Plain string | Json_data ImageDetails bool | Json_error "string option"

record response =
  res_status :: nat
  res_body :: body

definition is_digit :: "char \<Rightarrow> bool" where
  "is_digit c = (48 \<le> (of_char c :: nat) \<and> (of_char c :: nat) \<le> 57)"

definition is_alnum :: "char \<Rightarrow> bool" where
  "is_alnum c = (let n = (of_char c :: nat)
                 in (48 \<le> n \<and> n \<le> 57) \<or> (65 \<le> n \<and> n \<le> 90) \<or> (97 \<le> n \<and> n \<le> 122))"

definition toLowerCase :: "string \<Rightarrow> string" where
  "toLowerCase s = map (\<lambda>c. let n = (of_char c :: nat)
                             in if 65 \<le> n \<and> n \<le> 90 then char_of (n + 32) else c) s"

text \<open>The pieces of \<^verbatim>\<open>/^\d{4}-\d{2}-\d{2}$/\<close>: each consumes a prefix or fails.\<close>

fun digits :: "nat \<Rightarrow> string \<Rightarrow> string option" where
  "digits 0 s = Some s"
| "digits (Suc n) [] = None"
| "digits (Suc n) (c # s) = (if is_digit c then digits n s else None)"

fun literal :: "char \<Rightarrow> string \<Rightarrow> string option" where
  "literal c [] = None"
| "literal c (x # s) = (if x = c then Some s else None)"

definition dateRegex_test :: "string \<Rightarrow> bool" where
  "dateRegex_test s =
     (Option.bind (Option.bind (Option.bind (Option.bind
        (digits 4 s) (literal (CHR ''-''))) (digits 2)) (literal (CHR ''-''))) (digits 2)
      = Some [])"

definition select_single :: "edge \<Rightarrow> string \<Rightarrow> backend \<Rightarrow> (ImageDetails option \<times> pg_error option) \<times> backend" where
  "select_single env date st =
     (let st1 = st\<lparr>store_calls := store_calls st @ [Select date]\<rparr>
      in case store_fault env (Select date) of
           Some e \<Rightarrow> ((None, Some e), st1)
         | None \<Rightarrow>
             (case nasa_images st date of
                Some row \<Rightarrow> ((Some row, None), st1)
              | None \<Rightarrow> ((None, Some \<lparr>pg_code = ''PGRST116'', pg_message = ''no rows returned''\<rparr>), st1)))"

definition upload :: "edge \<Rightarrow> string \<Rightarrow> backend \<Rightarrow> pg_error option \<times> backend" where
  "upload env fileName st =
     (let st1 = st\<lparr>store_calls := store_calls st @ [Upload fileName]\<rparr>
      in case store_fault env (Upload fileName) of
           Some e \<Rightarrow> (Some e, st1)
         | None \<Rightarrow>
             if fileName \<in> bucket st1
             then (Some \<lparr>pg_code = ''409'', pg_message = ''The resource already exists''\<rparr>, st1)
             else (None, st1\<lparr>bucket := insert fileName (bucket st1)\<rparr>))"

text \<open>
  \<^verbatim>\<open>.insert(row).select().single()\<close> answers with an error or with the inserted row. The
  unique constraint on \<^verbatim>\<open>date\<close> rejects a row whose date is in the table when the
  insert arrives, which is after the racing row of the edge, if any, has been committed.
\<close>

definition insert_single :: "edge \<Rightarrow> ImageDetails \<Rightarrow> backend \<Rightarrow> (pg_error + ImageDetails) \<times> backend" where
  "insert_single env row st =
     (let st1 = st\<lparr>store_calls := store_calls st @ [Insert (img_date row)]\<rparr>;
          st2 = (case racing_insert env of
                   None \<Rightarrow> st1
                 | Some other \<Rightarrow>
                     if nasa_images st1 (img_date other) = None
                     then st1\<lparr>nasa_images := (nasa_images st1)(img_date other \<mapsto> other)\<rparr>
                     else st1)
      in case store_fault env (Insert (img_date row)) of
           Some e \<Rightarrow> (Inl e, st2)
         | None \<Rightarrow>
             if nasa_images st2 (img_date row) \<noteq> None
             then (Inl \<lparr>pg_code = ''23505'',
                        pg_message = ''duplicate key value violates unique constraint''\<rparr>, st2)
             else (Inr row, st2\<lparr>nasa_images := (nasa_images st2)(img_date row \<mapsto> row)\<rparr>))"

text \<open>
  Lines 106 to 158 of the handler: the copies into the bucket. The standard image is
  fetched outside any try, so a rejected fetch ends the request; an upload error is only
  logged. The high-definition copy sits inside a try whose catch continues.
\<close>

definition store_images :: "edge \<Rightarrow> string \<Rightarrow> NasaApodResponse \<Rightarrow> backend \<Rightarrow> (js_error + string option \<times> string option) \<times> backend" where
  "store_images env date nasaData st =
     (if apod_media_type nasaData = ''image''
      then (let st1 = st\<lparr>fetches := fetches st @ [apod_url nasaData]\<rparr>
            in case fetch env (apod_url nasaData) of
                 Rejects m \<Rightarrow> (Inl (TypeError m), st1)
               | Responds c imageBlob \<Rightarrow>
                   (let fileName = date @ ''-''
                          @ toLowerCase (map (\<lambda>ch. if is_alnum ch then ch else CHR ''_'') (apod_title nasaData))
                          @ ''.jpg'';
                        storageBucket = ''nasa-images'';
                        (uploadError, st2) = upload env fileName st1;
                        storagePath = (if uploadError \<noteq> None then None
                                       else Some (storageBucket @ ''/'' @ fileName))
                    in if truthy (apod_hdurl nasaData)
                       then (let st3 = st2\<lparr>fetches := fetches st2 @ [the (apod_hdurl nasaData)]\<rparr>
                             in case fetch env (the (apod_hdurl nasaData)) of
                                  Rejects m \<Rightarrow> (Inr (storagePath, None), st3)
                                | Responds c' hdImageBlob \<Rightarrow>
                                    (let hdFileName = ''hd-'' @ date @ ''-''
                                           @ toLowerCase (map (\<lambda>ch. if is_alnum ch then ch else CHR ''_'')
                                                            (apod_title nasaData))
                                           @ ''.jpg'';
                                         (hdUploadError, st4) = upload env hdFileName st3
                                     in (Inr (storagePath,
                                              if hdUploadError = None
                                              then Some (storageBucket @ ''/'' @ hdFileName)
                                              else None), st4)))
                       else (Inr (storagePath, None), st2)))
      else (Inr (None, None), st))"

text \<open>Lines 95 to 187: the provider call, the copies, the insert.\<close>

definition serve_fresh :: "edge \<Rightarrow> string \<Rightarrow> string \<Rightarrow> backend \<Rightarrow> (js_error + response) \<times> backend" where
  "serve_fresh env key date st =
     (let nasaApiUrl = ''https://api.nasa.gov/planetary/apod?api_key='' @ key @ ''&date='' @ date;
          st1 = st\<lparr>fetches := fetches st @ [nasaApiUrl]\<rparr>
      in case fetch env nasaApiUrl of
           Rejects m \<Rightarrow> (Inl (TypeError m), st1)
         | Responds c errorText \<Rightarrow>
             if \<not> (200 \<le> c \<and> c \<le> 299)
             then (Inl (Error (''NASA API error: '' @ string_of_nat c @ '' - '' @ errorText)), st1)
             else (case parse_apod env errorText of
                     None \<Rightarrow> (Inl (SyntaxError ''Unexpected token''), st1)
                   | Some nasaData \<Rightarrow>
                       (case store_images env date nasaData st1 of
                          (Inl e, st2) \<Rightarrow> (Inl e, st2)
                        | (Inr (storagePath, hdStoragePath), st2) \<Rightarrow>
                            (case insert_single env
                                    \<lparr>img_id = gen_random_uuid env,
                                     img_date = apod_date nasaData,
                                     img_title = apod_title nasaData,
                                     img_explanation = apod_explanation nasaData,
                                     img_url = apod_url nasaData,
                                     img_media_type = apod_media_type nasaData,
                                     img_copyright = apod_copyright nasaData,
                                     img_hdurl = apod_hdurl nasaData,
                                     img_storage_path = storagePath,
                                     img_thumbnail_storage_path = hdStoragePath,
                                     img_created_at = db_now env,
                                     img_updated_at = db_now env\<rparr> st2 of
                               (Inl insertError, st3) \<Rightarrow>
                                 (Inl (Error (pg_message insertError)), st3)
                             | (Inr insertedImage, st3) \<Rightarrow>
                                 (Inr \<lparr>res_status = 200,
                                       res_body = Json_data insertedImage False\<rparr>, st3)))))"

text \<open>Lines 48 to 93: the key, the validation, the lookup.\<close>

definition serve_try :: "edge \<Rightarrow> request \<Rightarrow> backend \<Rightarrow> (js_error + response) \<times> backend" where
  "serve_try env req st =
     (if \<not> truthy (NASA_API_KEY env)
      then (Inl (Error ''NASA_API_KEY environment variable is not set''), st)
      else (let date = req_date req;
                invalid = (Inl (Error ''Invalid date format. Please provide date in YYYY-MM-DD format''), st)
            in if \<not> truthy date then invalid
               else if \<not> dateRegex_test (the date) then invalid
               else (case select_single env (the date) st of
                       ((existingImage, fetchError), st1) \<Rightarrow>
                         if fetchError \<noteq> None \<and> pg_code (the fetchError) \<noteq> ''PGRST116''
                         then (Inl (Error (pg_message (the fetchError))), st1)
                         else if existingImage \<noteq> None
                         then (Inr \<lparr>res_status = 200,
                                    res_body = Json_data (the existingImage) True\<rparr>, st1)
                         else serve_fresh env (the (NASA_API_KEY env)) (the date) st1)))"

definition serve :: "edge \<Rightarrow> request \<Rightarrow> backend \<Rightarrow> response \<times> backend" where
  "serve env req st =
     (if req_method req = ''OPTIONS''
      then (\<lparr>res_status = 200, res_body = Plain ''ok''\<rparr>, st)
      else (case serve_try env req st of
              (Inr res, st1) \<Rightarrow> (res, st1)
            | (Inl e, st1) \<Rightarrow> (\<lparr>res_status = 400, res_body = Json_error (message e)\<rparr>, st1)))"

text \<open>
  How the client library presents a response of the endpoint to \<^verbatim>\<open>getNasaImageOfDay\<close>:
  a status outside 200 to 299 becomes a \<^verbatim>\<open>FunctionsHttpError\<close> whose context is the
  response, with null data; the handler's error body is the object
  \<^verbatim>\<open>{ error: message }\<close>.
\<close>

definition invoke_result_of :: "response \<Rightarrow> invoke_result" where
  "invoke_result_of res =
     (if 200 \<le> res_status res \<and> res_status res \<le> 299
      then \<lparr>inv_data = (case res_body res of
                           Json_data row c \<Rightarrow> Some \<lparr>resp_data = row, resp_cached = c\<rparr>
                         | Plain t \<Rightarrow> None
                         | Json_error m \<Rightarrow> None),
            inv_error = None\<rparr>
      else \<lparr>inv_data = None,
            inv_error = Some (FunctionsHttpError
              (case res_body res of
                 Json_error m \<Rightarrow> JsonObject \<lparr>err_error = m, err_errorCode = None, err_date = None\<rparr>
               | Json_data row c \<Rightarrow> JsonObject \<lparr>err_error = None, err_errorCode = None, err_date = None\<rparr>
               | Plain t \<Rightarrow> NotJson))\<rparr>)"

section \<open>Conditions on the device\<close>

text \<open>
  What the statements about a load that succeeds assume of the endpoint and of the
  network: the endpoint's answer for a date string is a record without an error; an image
  record can be fetched from the remote URL the screen passes on or from the blob store;
  and what the screen then shows.
\<close>

definition resolves :: "device \<Rightarrow> string \<Rightarrow> NasaImageResponse \<Rightarrow> bool" where
  "resolves dev date response =
     (inv_error (functions_invoke dev date) = None
      \<and> inv_data (functions_invoke dev date) = Some response)"

definition downloadable :: "device \<Rightarrow> ImageDetails \<Rightarrow> bool" where
  "downloadable dev data =
     (let nasaUrl = js_or (img_hdurl data) (Some (img_url data))
      in (truthy nasaUrl \<and> net dev (the nasaUrl) = Status 200)
         \<or> (truthy (img_storage_path data)
             \<and> net dev (getNasaImagePublicUrl dev (the (img_storage_path data))) = Status 200))"

definition shown :: "device \<Rightarrow> ImageDetails \<Rightarrow> string \<Rightarrow> string" where
  "shown dev data dateStr =
     (if img_media_type data = ''image'' then getCacheFilePath dev dateStr else img_url data)"

section \<open>Sample environments\<close>

text \<open>
  A provider record, a stored row and an edge with the key set, no injected failure and a
  parser that knows one body; the fetch table and the racing row vary.
\<close>

definition demo_apod :: NasaApodResponse where
  "demo_apod = \<lparr>apod_date = ''2024-10-05'', apod_explanation = ''A spiral galaxy'',
     apod_hdurl = None, apod_media_type = ''video'', apod_service_version = ''v1'',
     apod_title = ''M31'', apod_url = ''https://apod.example/m31'', apod_copyright = None\<rparr>"

definition demo_row :: ImageDetails where
  "demo_row = \<lparr>img_id = ''uuid-0'', img_date = ''2024-10-05'', img_title = ''M31'',
     img_explanation = ''A spiral galaxy'', img_url = ''https://apod.example/m31'',
     img_media_type = ''video'', img_copyright = None, img_hdurl = None,
     img_storage_path = None, img_thumbnail_storage_path = None,
     img_created_at = ''t0'', img_updated_at = ''t0''\<rparr>"

definition demo_edge :: "(string \<Rightarrow> fetched) \<Rightarrow> ImageDetails option \<Rightarrow> edge" where
  "demo_edge f r = \<lparr>NASA_API_KEY = Some ''DEMO_KEY'', fetch = f,
     parse_apod = (\<lambda>t. if t = ''apod'' then Some demo_apod else None),
     store_fault = (\<lambda>c. None), racing_insert = r,
     gen_random_uuid = ''uuid-1'', db_now = ''t1''\<rparr>"

definition empty_backend :: backend where
  "empty_backend = \<lparr>nasa_images = Map.empty, bucket = {}, store_calls = [], fetches = []\<rparr>"

definition get_request :: "string \<Rightarrow> request" where
  "get_request d = \<lparr>req_method = ''GET'', req_date = Some d\<rparr>"

text \<open>
  A device in the year 2025 with a fixed offset from UTC: the time value 0 is the start
  of the first of January, a day has 86400000 ms, and \<^verbatim>\<open>setDate\<close> moves by whole days.
  Its clock reads one more second at each attempt, from the start of the sixth of October
  on, which is the time value 24019200000. Then a world with nothing in it, an image
  record, the initial screen, some endpoints and a network.
\<close>

fun month_day :: "nat list \<Rightarrow> nat \<Rightarrow> nat \<Rightarrow> nat \<times> nat" where
  "month_day [] m n = (m, n)"
| "month_day (l # ls) m n = (if n < l then (m, n) else month_day ls (Suc m) (n - l))"

definition demo_month_day :: "int \<Rightarrow> nat \<times> nat" where
  "demo_month_day t =
     month_day [31, 28, 31, 30, 31, 30, 31, 31, 30, 31, 30, 31] 0 (nat (t div 86400000))"

definition demo_device :: "(string \<Rightarrow> invoke_result) \<Rightarrow> (string \<Rightarrow> reply) \<Rightarrow> device" where
  "demo_device answers nt = \<lparr>cacheDirectory = ''file:///cache/'', net = nt,
     keeps_failed_body = False, getPublicUrl = (\<lambda>p. ''https://blob.example/'' @ p),
     functions_invoke = answers, now = (\<lambda>n. 24019200000 + 1000 * (int n + 1)),
     getFullYear = (\<lambda>t. 2025), getMonth = (\<lambda>t. fst (demo_month_day t)),
     getDate = (\<lambda>t. Suc (snd (demo_month_day t))),
     setDate = (\<lambda>t n. t + (n - int (Suc (snd (demo_month_day t)))) * 86400000),
     null_read_text = ''Cannot read property data of null''\<rparr>"

definition empty_world :: world where
  "empty_world = \<lparr>entries = {}, downloads = [], invocations = []\<rparr>"

definition demo_image :: ImageDetails where
  "demo_image = \<lparr>img_id = ''uuid-2'', img_date = ''2025-10-04'', img_title = ''M31'',
     img_explanation = ''A spiral galaxy'', img_url = ''https://apod.example/m31.jpg'',
     img_media_type = ''image'', img_copyright = None,
     img_hdurl = Some ''https://apod.example/m31_hd.jpg'',
     img_storage_path = Some ''nasa-images/2025-10-04-m31.jpg'',
     img_thumbnail_storage_path = None, img_created_at = ''t0'', img_updated_at = ''t0''\<rparr>"

text \<open>The network on which only the high-definition URL fails.\<close>

definition hd_down :: "string \<Rightarrow> reply" where
  "hd_down u = (if u = ''https://apod.example/m31_hd.jpg'' then Status 404 else Status 200)"

definition no_invoke :: "string \<Rightarrow> invoke_result" where
  "no_invoke d = \<lparr>inv_data = None, inv_error = Some (FunctionsFetchError ''offline'')\<rparr>"

definition blank_screen :: screen where
  "blank_screen = \<lparr>currentDate = 24019200000, imageData = None, localImageUri = None,
     loading = True, error = None, console = []\<rparr>"

definition no_data_answer :: "string \<Rightarrow> invoke_result" where
  "no_data_answer d = \<lparr>inv_data = None, inv_error = Some (FunctionsHttpError (JsonObject
     \<lparr>err_error = Some ''No data available for this date'',
      err_errorCode = Some ''NASA_NO_DATA'', err_date = Some d\<rparr>))\<rparr>"

text \<open>The endpoint that has a record for 2025-10-04 only.\<close>

definition fourth_only :: "string \<Rightarrow> invoke_result" where
  "fourth_only d =
     (if d = ''2025-10-04''
      then \<lparr>inv_data = Some \<lparr>resp_data = demo_image, resp_cached = True\<rparr>, inv_error = None\<rparr>
      else no_data_answer d)"

text \<open>
  An edge whose provider has a record for 2025-10-05 and answers every other date with
  404 and its no-data message, and the endpoint that is the handler itself on that edge
  with an empty backend, the date arriving as the query parameter the handler reads.
\<close>

definition october_apod :: NasaApodResponse where
  "october_apod = \<lparr>apod_date = ''2025-10-05'', apod_explanation = ''A comet'',
     apod_hdurl = None, apod_media_type = ''video'', apod_service_version = ''v1'',
     apod_title = ''Comet'', apod_url = ''https://apod.example/comet'', apod_copyright = None\<rparr>"

definition october_edge :: edge where
  "october_edge = \<lparr>NASA_API_KEY = Some ''DEMO_KEY'',
     fetch = (\<lambda>u. if u = ''https://api.nasa.gov/planetary/apod?api_key=DEMO_KEY&date=2025-10-05''
                  then Responds 200 ''apod''
                  else Responds 404 ''No data available for date: 2025-10-06''),
     parse_apod = (\<lambda>t. if t = ''apod'' then Some october_apod else None),
     store_fault = (\<lambda>c. None), racing_insert = None,
     gen_random_uuid = ''uuid-3'', db_now = ''t2''\<rparr>"

definition via_handler :: "edge \<Rightarrow> string \<Rightarrow> invoke_result" where
  "via_handler env d = invoke_result_of (fst (serve env (get_request d) empty_backend))"

section \<open>Frame lemmas for the endpoint\<close>

lemma upload_frame:
  "fetches (snd (upload env n st)) = fetches st"
  "nasa_images (snd (upload env n st)) = nasa_images st"
  by (simp_all add: upload_def Let_def split: option.splits)

lemma store_images_fetches: "\<exists>xs. fetches (snd (store_images env date nd st)) = fetches st @ xs"
  by (auto simp: store_images_def Let_def upload_frame split_beta split: fetched.splits)

lemma store_images_nasa_images: "nasa_images (snd (store_images env date nd st)) = nasa_images st"
  by (auto simp: store_images_def Let_def upload_frame split_beta split: fetched.splits)

lemma insert_single_fetches: "fetches (snd (insert_single env row st)) = fetches st"
  by (simp add: insert_single_def Let_def split: option.splits)

lemma serve_fresh_fetches:
  "\<exists>xs. fetches (snd (serve_fresh env key date st))
        = fetches st @ (''https://api.nasa.gov/planetary/apod?api_key='' @ key @ ''&date='' @ date) # xs"
proof -
  let ?u = "''https://api.nasa.gov/planetary/apod?api_key='' @ key @ ''&date='' @ date"
  let ?st1 = "st\<lparr>fetches := fetches st @ [?u]\<rparr>"
  show ?thesis
  proof (cases "fetch env ?u")
    case (Rejects m)
    then show ?thesis by (simp add: serve_fresh_def Let_def)
  next
    case (Responds c t)
    show ?thesis
    proof (cases "\<not> (200 \<le> c \<and> c \<le> 299)")
      case True
      with Responds show ?thesis by (simp add: serve_fresh_def Let_def)
    next
      case ok: False
      show ?thesis
      proof (cases "parse_apod env t")
        case None
        with Responds ok show ?thesis by (simp add: serve_fresh_def Let_def)
      next
        case (Some nd)
        obtain xs where xs: "fetches (snd (store_images env date nd ?st1)) = fetches ?st1 @ xs"
          using store_images_fetches by blast
        obtain r st2 where si: "store_images env date nd ?st1 = (r, st2)" by (cases "store_images env date nd ?st1")
        with xs have f2: "fetches st2 = fetches st @ ?u # xs" by simp
        show ?thesis
        proof (cases r)
          case (Inl e)
          with Responds ok Some si f2 show ?thesis by (simp add: serve_fresh_def Let_def)
        next
          case (Inr p)
          obtain sp hsp where p: "p = (sp, hsp)" by (cases p)
          let ?row = "\<lparr>img_id = gen_random_uuid env, img_date = apod_date nd, img_title = apod_title nd,
             img_explanation = apod_explanation nd, img_url = apod_url nd,
             img_media_type = apod_media_type nd, img_copyright = apod_copyright nd,
             img_hdurl = apod_hdurl nd, img_storage_path = sp, img_thumbnail_storage_path = hsp,
             img_created_at = db_now env, img_updated_at = db_now env\<rparr>"
          have "fetches (snd (insert_single env ?row st2)) = fetches st @ ?u # xs"
            using f2 by (simp add: insert_single_fetches)
          with Responds ok Some si Inr p show ?thesis
            by (auto simp: serve_fresh_def Let_def split: prod.splits sum.splits)
        qed
      qed
    qed
  qed
qed

lemma serve_fresh_body:
  "serve_fresh env key date st = (Inr res, st') \<Longrightarrow> \<exists>row. res = \<lparr>res_status = 200, res_body = Json_data row False\<rparr>"
  by (auto simp: serve_fresh_def Let_def split: fetched.splits if_splits option.splits prod.splits sum.splits)

lemma select_single_fetches: "fetches (snd (select_single env d st)) = fetches st"
  by (simp add: select_single_def Let_def split: option.splits)

lemma store_images_Inr:
  "apod_media_type nd = ''image'' \<longrightarrow> (\<exists>c b. fetch env (apod_url nd) = Responds c b)
   \<Longrightarrow> \<exists>p. fst (store_images env date nd st) = Inr p"
  by (auto simp: store_images_def Let_def split_beta split: fetched.splits)

lemmas serve_defs = serve_def serve_try_def serve_fresh_def store_images_def insert_single_def
  select_single_def upload_def

lemmas demo_defs = demo_edge_def get_request_def empty_backend_def demo_apod_def demo_row_def
  dateRegex_test_def is_digit_def

section \<open>Lemmas about the image cache\<close>

lemmas cache_defs = getImage_def getCachedImage_def downloadAndCache_def downloadAsync_def
  ensureCacheDir_def makeDirectoryAsync_def getInfoAsync_exists_def getCacheFilePath_def
  CACHE_DIR_def getNasaImagePublicUrl_def js_or_def


lemma ensureCacheDir_frame:
  "downloads (ensureCacheDir dev w) = downloads w"
  "invocations (ensureCacheDir dev w) = invocations w"
  "entries w \<subseteq> entries (ensureCacheDir dev w)"
  by (auto simp: ensureCacheDir_def makeDirectoryAsync_def)

lemma downloadAndCache_downloads:
  "downloads (snd (downloadAndCache dev url date w)) = downloads w @ [(url, getCacheFilePath dev date)]"
  by (simp add: downloadAndCache_def downloadAsync_def Let_def ensureCacheDir_frame split: reply.splits)

lemma downloadAndCache_invocations:
  "invocations (snd (downloadAndCache dev url date w)) = invocations w"
  by (simp add: downloadAndCache_def downloadAsync_def Let_def ensureCacheDir_frame split: reply.splits)

lemma downloadAndCache_entries:
  "entries w \<subseteq> entries (snd (downloadAndCache dev url date w))"
  using ensureCacheDir_frame(3) [of w dev]
  by (auto simp: downloadAndCache_def downloadAsync_def Let_def split: reply.splits)

lemma downloadAndCache_ok:
  "net dev url = Status 200 \<Longrightarrow>
     fst (downloadAndCache dev url date w) = Inr (getCacheFilePath dev date)
     \<and> getCacheFilePath dev date \<in> entries (snd (downloadAndCache dev url date w))"
  by (simp add: downloadAndCache_def downloadAsync_def Let_def)

lemma downloadAndCache_fail:
  "net dev url \<noteq> Status 200 \<Longrightarrow> \<exists>e. fst (downloadAndCache dev url date w) = Inl e"
  by (auto simp: downloadAndCache_def downloadAsync_def Let_def split: reply.splits)

lemma getImage_hit:
  "getCacheFilePath dev date \<in> entries w \<Longrightarrow>
     getImage dev nasaUrl storagePath date w = (Inr (getCacheFilePath dev date), w)"
  by (simp add: getImage_def getCachedImage_def getInfoAsync_exists_def Let_def
      getCacheFilePath_def CACHE_DIR_def)

lemma getCachedImage_miss:
  "getCacheFilePath dev date \<notin> entries w \<Longrightarrow> \<not> truthy (getCachedImage dev date w)"
  by (simp add: getCachedImage_def getInfoAsync_exists_def Let_def)

lemma getImage_invocations:
  "invocations (snd (getImage dev nasaUrl storagePath date w)) = invocations w"
proof -
  have a: "\<And>u w'. invocations (snd (downloadAndCache dev u date w')) = invocations w'"
    by (rule downloadAndCache_invocations)
  show ?thesis
    by (auto simp: getImage_def Let_def a split: prod.splits sum.splits)
      (metis a snd_conv)+
qed


section \<open>Lemmas about the resolver and the walk\<close>

lemma getNasaImageOfDay_invocations:
  "invocations (snd (getNasaImageOfDay dev d w)) = invocations w @ [d]"
  by (simp add: getNasaImageOfDay_def Let_def
      split: option.splits functions_error.splits json_body.splits)

lemma getNasaImageOfDay_resolves:
  "resolves dev d response \<Longrightarrow>
     getNasaImageOfDay dev d w = (Inr (Some response), w\<lparr>invocations := invocations w @ [d]\<rparr>)"
  by (simp add: resolves_def getNasaImageOfDay_def Let_def)

lemma getImage_succeeds:
  assumes "(truthy n \<and> net dev (the n) = Status 200)
           \<or> (truthy sp \<and> net dev (getNasaImagePublicUrl dev (the sp)) = Status 200)"
  shows "fst (getImage dev n sp date w) = Inr (getCacheFilePath dev date)"
proof (cases "getCacheFilePath dev date \<in> entries w")
  case True
  then show ?thesis by (simp add: getImage_hit)
next
  case False
  then have miss: "\<not> truthy (getCachedImage dev date w)" by (rule getCachedImage_miss)
  let ?b = "getNasaImagePublicUrl dev (the sp)"
  show ?thesis
  proof (cases "truthy n \<and> net dev (the n) = Status 200")
    case True
    with downloadAndCache_ok [of dev "the n" date w]
    obtain w1 where "downloadAndCache dev (the n) date w = (Inr (getCacheFilePath dev date), w1)"
      by (metis prod.collapse)
    then show ?thesis
      using miss True by (simp add: getImage_def Let_def)
  next
    case f: False
    with assms have b: "truthy sp" "net dev ?b = Status 200" by auto
    show ?thesis
    proof (cases "truthy n")
      case True
      with f have bad: "net dev (the n) \<noteq> Status 200" by simp
      obtain x w1 where d1: "downloadAndCache dev (the n) date w = (x, w1)"
        by (cases "downloadAndCache dev (the n) date w")
      from downloadAndCache_fail [OF bad, of date w] d1 obtain e where x: "x = Inl e" by auto
      show ?thesis
        using miss True d1 x b downloadAndCache_ok [of dev ?b date w1]
        by (simp add: getImage_def Let_def)
    next
      case False
      then show ?thesis
        using miss b downloadAndCache_ok [of dev ?b date w]
        by (simp add: getImage_def Let_def)
    qed
  qed
qed

lemma try_frame:
  "loadImageForDate_try dev date r (ui, w) = (x, ui1, w1) \<Longrightarrow>
     currentDate ui1 = currentDate ui \<and> console ui1 = console ui @ [(formatDate dev date, r)]"
  by (auto simp: loadImageForDate_try_def Let_def split: prod.splits sum.splits option.splits if_splits)

lemma try_success:
  assumes "resolves dev (formatDate dev date) response"
      and "img_media_type (resp_data response) = ''image'' \<longrightarrow> downloadable dev (resp_data response)"
  shows "\<exists>w'. loadImageForDate_try dev date r (ui, w)
           = (Inr (),
              ui\<lparr>console := console ui @ [(formatDate dev date, r)],
                 imageData := Some (resp_data response),
                 localImageUri := Some (shown dev (resp_data response) (formatDate dev date))\<rparr>, w')"
proof -
  let ?d = "formatDate dev date"
  let ?data = "resp_data response"
  let ?w1 = "w\<lparr>invocations := invocations w @ [?d]\<rparr>"
  have g: "getNasaImageOfDay dev ?d w = (Inr (Some response), ?w1)"
    using assms(1) by (rule getNasaImageOfDay_resolves)
  show ?thesis
  proof (cases "img_media_type ?data = ''image''")
    case True
    with assms(2) have "downloadable dev ?data" by simp
    then have "fst (getImage dev (js_or (img_hdurl ?data) (Some (img_url ?data)))
                      (img_storage_path ?data) ?d ?w1) = Inr (getCacheFilePath dev ?d)"
      by (intro getImage_succeeds) (simp add: downloadable_def Let_def)
    then obtain w2 where "getImage dev (js_or (img_hdurl ?data) (Some (img_url ?data)))
                      (img_storage_path ?data) ?d ?w1 = (Inr (getCacheFilePath dev ?d), w2)"
      by (metis prod.collapse)
    with g True show ?thesis
      by (simp add: loadImageForDate_try_def Let_def shown_def)
  next
    case False
    with g show ?thesis
      by (simp add: loadImageForDate_try_def Let_def shown_def)
  qed
qed

lemma load_success:
  assumes "resolves dev (formatDate dev date) response"
      and "img_media_type (resp_data response) = ''image'' \<longrightarrow> downloadable dev (resp_data response)"
  shows "\<exists>w'. loadImageForDate dev date r (ui, w)
           = (ui\<lparr>loading := False, error := None,
                 localImageUri := Some (shown dev (resp_data response) (formatDate dev date)),
                 imageData := Some (resp_data response),
                 console := console ui @ [(formatDate dev date, r)]\<rparr>, w')"
proof -
  from try_success [OF assms, of r "ui\<lparr>loading := True, error := None, localImageUri := None\<rparr>" w]
  obtain w' where "loadImageForDate_try dev date r
       (ui\<lparr>loading := True, error := None, localImageUri := None\<rparr>, w)
     = (Inr (),
        ui\<lparr>loading := True, error := None, localImageUri := None,
           console := console ui @ [(formatDate dev date, r)],
           imageData := Some (resp_data response),
           localImageUri := Some (shown dev (resp_data response) (formatDate dev date))\<rparr>, w')"
    by auto
  then show ?thesis
    by (subst loadImageForDate.simps) (simp add: Let_def)
qed

lemma preloadImage_frame:
  "fst (preloadImage dev n sp d w) = Inr ()"
  "invocations (snd (preloadImage dev n sp d w)) = invocations w"
  using getImage_invocations [of dev n sp d w]
  by (auto simp: preloadImage_def split: prod.splits sum.splits)

lemma preloadImageForDate_settles: "fst (preloadImageForDate dev d w) = Inr ()"
  by (auto simp: preloadImageForDate_def Let_def split: prod.splits sum.splits option.splits)

lemma preloadImageForDate_invocations:
  "invocations (snd (preloadImageForDate dev d w)) = invocations w @ [formatDate dev d]"
proof -
  obtain x w1 where g: "getNasaImageOfDay dev (formatDate dev d) w = (x, w1)"
    by (cases "getNasaImageOfDay dev (formatDate dev d) w")
  then have i: "invocations w1 = invocations w @ [formatDate dev d]"
    using getNasaImageOfDay_invocations [of dev "formatDate dev d" w] by simp
  show ?thesis
  proof (cases x)
    case (Inl e)
    with g i show ?thesis by (simp add: preloadImageForDate_def Let_def)
  next
    case (Inr r)
    show ?thesis
    proof (cases r)
      case None
      with g i Inr show ?thesis by (simp add: preloadImageForDate_def Let_def)
    next
      case (Some response)
      let ?data = "resp_data response"
      have "invocations (snd (preloadImage dev (js_or (img_hdurl ?data) (Some (img_url ?data)))
                (img_storage_path ?data) (formatDate dev d) w1)) = invocations w1"
        by (rule preloadImage_frame)
      with g i Inr Some show ?thesis
        by (auto simp: preloadImageForDate_def Let_def split: prod.splits sum.splits)
    qed
  qed
qed

lemma formatDate_demo:
  "formatDate (demo_device a n) 24019200000 = ''2025-10-06''"
  "formatDate (demo_device a n) 23932800000 = ''2025-10-05''"
  "formatDate (demo_device a n) 23846400000 = ''2025-10-04''"
  "formatDate (demo_device a n) 19612800000 = ''2025-08-16''"
  by code_simp+

lemma addDays_demo:
  "addDays (demo_device a n) t d = t + d * 86400000"
  by (simp add: addDays_def demo_device_def)

lemma handler_never_signals_no_data:
  assumes "functions_invoke dev d = invoke_result_of res"
  shows "fst (getNasaImageOfDay dev d w) \<noteq> Inl (NasaNoDataError m dd)"
  using assms
  by (auto simp: getNasaImageOfDay_def invoke_result_of_def Let_def
      split: if_splits body.splits)

lemma october_answers:
  "fst (serve october_edge (get_request ''2025-10-05'') empty_backend)
     = \<lparr>res_status = 200,
        res_body = Json_data \<lparr>img_id = ''uuid-3'', img_date = ''2025-10-05'', img_title = ''Comet'',
          img_explanation = ''A comet'', img_url = ''https://apod.example/comet'',
          img_media_type = ''video'', img_copyright = None, img_hdurl = None,
          img_storage_path = None, img_thumbnail_storage_path = None,
          img_created_at = ''t2'', img_updated_at = ''t2''\<rparr> False\<rparr>"
  "fst (serve october_edge (get_request ''2025-10-06'') empty_backend)
     = \<lparr>res_status = 400,
        res_body = Json_error (Some ''NASA API error: 404 - No data available for date: 2025-10-06'')\<rparr>"
proof -
  have n: "string_of_nat 404 = ''404''" by code_simp
  show "fst (serve october_edge (get_request ''2025-10-05'') empty_backend)
     = \<lparr>res_status = 200,
        res_body = Json_data \<lparr>img_id = ''uuid-3'', img_date = ''2025-10-05'', img_title = ''Comet'',
          img_explanation = ''A comet'', img_url = ''https://apod.example/comet'',
          img_media_type = ''video'', img_copyright = None, img_hdurl = None,
          img_storage_path = None, img_thumbnail_storage_path = None,
          img_created_at = ''t2'', img_updated_at = ''t2''\<rparr> False\<rparr>"
    by (simp add: serve_defs october_edge_def october_apod_def get_request_def empty_backend_def
        dateRegex_test_def is_digit_def eval_nat_numeral)
  show "fst (serve october_edge (get_request ''2025-10-06'') empty_backend)
     = \<lparr>res_status = 400,
        res_body = Json_error (Some ''NASA API error: 404 - No data available for date: 2025-10-06'')\<rparr>"
    using n
    by (simp add: serve_defs october_edge_def october_apod_def get_request_def empty_backend_def
        dateRegex_test_def is_digit_def eval_nat_numeral)
qed

lemma formatDate_demo_august:
  "formatDate (demo_device a n) 19526400000 = ''2025-08-15''"
  by code_simp

lemma upload_store_calls:
  "store_calls (snd (upload env n st)) = store_calls st @ [Upload n]"
  by (simp add: upload_def Let_def split: option.splits)

lemma store_images_store_calls:
  "\<exists>names. store_calls (snd (store_images env date nd st)) = store_calls st @ map Upload names"
proof (cases "apod_media_type nd = ''image''")
  case False
  then have "store_calls (snd (store_images env date nd st)) = store_calls st @ map Upload []"
    by (simp add: store_images_def)
  then show ?thesis by blast
next
  case True
  let ?f = "date @ ''-'' @ toLowerCase (map (\<lambda>ch. if is_alnum ch then ch else CHR ''_'') (apod_title nd))
              @ ''.jpg''"
  let ?h = "''hd-'' @ date @ ''-'' @ toLowerCase (map (\<lambda>ch. if is_alnum ch then ch else CHR ''_'') (apod_title nd))
              @ ''.jpg''"
  have "store_calls (snd (store_images env date nd st)) = store_calls st @ map Upload []
      \<or> store_calls (snd (store_images env date nd st)) = store_calls st @ map Upload [?f]
      \<or> store_calls (snd (store_images env date nd st)) = store_calls st @ map Upload [?f, ?h]"
    using True
    by (auto simp: store_images_def Let_def split_beta upload_store_calls split: fetched.splits)
  then show ?thesis by blast
qed

section \<open>Lemmas about preloading\<close>

lemma getImage_miss_eq:
  assumes "getCacheFilePath dev date \<notin> entries w"
      and "w' = (if truthy n then snd (downloadAndCache dev (the n) date w) else w)"
  shows "getImage dev n sp date w =
     (if truthy n \<and> net dev (the n) = Status 200 then downloadAndCache dev (the n) date w
      else if truthy sp
      then downloadAndCache dev (getNasaImagePublicUrl dev (the sp)) date w'
      else (Inl (Error ''No valid image URL available''), w'))"
proof -
  have miss: "\<not> truthy (getCachedImage dev date w)"
    using assms(1) by (rule getCachedImage_miss)
  show ?thesis
  proof (cases "truthy n")
    case False
    with miss assms(2) show ?thesis by (simp add: getImage_def Let_def)
  next
    case True
    obtain x w1 where d1: "downloadAndCache dev (the n) date w = (x, w1)"
      by (cases "downloadAndCache dev (the n) date w")
    show ?thesis
    proof (cases "net dev (the n) = Status 200")
      case ok: True
      from downloadAndCache_ok [OF ok, of date w] d1 have "x = Inr (getCacheFilePath dev date)"
        by simp
      with miss True ok d1 show ?thesis by (simp add: getImage_def Let_def)
    next
      case bad: False
      from downloadAndCache_fail [OF bad, of date w] d1 obtain e where "x = Inl e" by auto
      with miss True bad d1 assms(2) show ?thesis by (simp add: getImage_def Let_def)
    qed
  qed
qed

lemma getImage_entries_mono:
  "entries w \<subseteq> entries (snd (getImage dev n sp date w))"
proof (cases "getCacheFilePath dev date \<in> entries w")
  case True
  then show ?thesis by (simp add: getImage_hit)
next
  case False
  obtain w' where w': "w' = (if truthy n then snd (downloadAndCache dev (the n) date w) else w)"
    by simp
  have a: "entries w \<subseteq> entries w'"
    using downloadAndCache_entries [of w dev "the n" date] w' by simp
  have b: "entries w' \<subseteq> entries (snd (downloadAndCache dev (getNasaImagePublicUrl dev (the sp)) date w'))"
    by (rule downloadAndCache_entries)
  have c: "entries w \<subseteq> entries (snd (downloadAndCache dev (the n) date w))"
    by (rule downloadAndCache_entries)
  show ?thesis
    using a b c by (auto simp: getImage_miss_eq [OF False w'])
qed

lemma getImage_success_entry:
  assumes "fst (getImage dev n sp date w) = Inr u"
  shows "getCacheFilePath dev date \<in> entries (snd (getImage dev n sp date w))"
proof (cases "getCacheFilePath dev date \<in> entries w")
  case True
  then show ?thesis by (simp add: getImage_hit)
next
  case False
  obtain w' where w': "w' = (if truthy n then snd (downloadAndCache dev (the n) date w) else w)"
    by simp
  note G = getImage_miss_eq [OF False w', of sp]
  let ?b = "getNasaImagePublicUrl dev (the sp)"
  show ?thesis
  proof (cases "truthy n \<and> net dev (the n) = Status 200")
    case True
    then have "getImage dev n sp date w = downloadAndCache dev (the n) date w"
      by (simp add: G)
    then show ?thesis
      using True downloadAndCache_ok [of dev "the n" date w] by simp
  next
    case f: False
    show ?thesis
    proof (cases "truthy sp")
      case True
      have E: "getImage dev n sp date w = downloadAndCache dev ?b date w'"
        by (simp only: G f True if_False if_True)
      with assms have "fst (downloadAndCache dev ?b date w') = Inr u" by simp
      then have "net dev ?b = Status 200"
        using downloadAndCache_fail [of dev ?b date w'] by auto
      from downloadAndCache_ok [OF this, of date w'] E show ?thesis by simp
    next
      case False
      have "getImage dev n sp date w = (Inl (Error ''No valid image URL available''), w')"
        by (simp only: G f False if_False)
      with assms show ?thesis by simp
    qed
  qed
qed

lemma getNasaImageOfDay_world:
  "snd (getNasaImageOfDay dev d w) = w\<lparr>invocations := invocations w @ [d]\<rparr>"
  by (simp add: getNasaImageOfDay_def Let_def
      split: option.splits functions_error.splits json_body.splits)

lemma preloadImage_world:
  "snd (preloadImage dev n sp d w) = snd (getImage dev n sp d w)"
  by (simp add: preloadImage_def split: prod.splits sum.splits)

lemma preloadImageForDate_world:
  assumes "resolves dev (formatDate dev d) response"
  shows "snd (preloadImageForDate dev d w) =
     (if img_media_type (resp_data response) = ''image''
      then snd (getImage dev (js_or (img_hdurl (resp_data response)) (Some (img_url (resp_data response))))
                  (img_storage_path (resp_data response)) (formatDate dev d)
                  (w\<lparr>invocations := invocations w @ [formatDate dev d]\<rparr>))
      else w\<lparr>invocations := invocations w @ [formatDate dev d]\<rparr>)"
proof -
  let ?data = "resp_data response"
  let ?w1 = "w\<lparr>invocations := invocations w @ [formatDate dev d]\<rparr>"
  let ?n = "js_or (img_hdurl ?data) (Some (img_url ?data))"
  have g: "getNasaImageOfDay dev (formatDate dev d) w = (Inr (Some response), ?w1)"
    using assms by (rule getNasaImageOfDay_resolves)
  obtain y w2 where p: "preloadImage dev ?n (img_storage_path ?data) (formatDate dev d) ?w1 = (y, w2)"
    by (cases "preloadImage dev ?n (img_storage_path ?data) (formatDate dev d) ?w1")
  then have y: "y = Inr ()" and w2: "w2 = snd (getImage dev ?n (img_storage_path ?data) (formatDate dev d) ?w1)"
    using preloadImage_frame(1) [of dev ?n "img_storage_path ?data" "formatDate dev d" ?w1]
      preloadImage_world [of dev ?n "img_storage_path ?data" "formatDate dev d" ?w1]
    by simp_all
  show ?thesis
    by (simp add: preloadImageForDate_def Let_def g p y w2 [symmetric])
qed

lemma preloadImageForDate_entries_mono:
  "entries w \<subseteq> entries (snd (preloadImageForDate dev d w))"
proof -
  obtain x w1 where g: "getNasaImageOfDay dev (formatDate dev d) w = (x, w1)"
    by (cases "getNasaImageOfDay dev (formatDate dev d) w")
  then have e: "entries w1 = entries w"
    using getNasaImageOfDay_world [of dev "formatDate dev d" w] by simp
  have m: "\<And>n sp. entries w1 \<subseteq> entries (snd (preloadImage dev n sp (formatDate dev d) w1))"
    by (simp add: preloadImage_world getImage_entries_mono)
  show ?thesis
  proof (cases x)
    case (Inl err)
    with g e show ?thesis by (simp add: preloadImageForDate_def Let_def)
  next
    case (Inr r)
    show ?thesis
    proof (cases r)
      case None
      with g e Inr show ?thesis by (simp add: preloadImageForDate_def Let_def)
    next
      case (Some response)
      let ?data = "resp_data response"
      from m [of "js_or (img_hdurl ?data) (Some (img_url ?data))" "img_storage_path ?data"]
        g e Inr Some
      show ?thesis
        by (auto simp: preloadImageForDate_def Let_def split: prod.splits sum.splits)
    qed
  qed
qed

lemma preloadImageForDate_caches:
  assumes "resolves dev (formatDate dev d) response"
      and "img_media_type (resp_data response) = ''image''"
      and "downloadable dev (resp_data response)"
  shows "getCacheFilePath dev (formatDate dev d) \<in> entries (snd (preloadImageForDate dev d w))"
proof -
  let ?data = "resp_data response"
  let ?w1 = "w\<lparr>invocations := invocations w @ [formatDate dev d]\<rparr>"
  have "fst (getImage dev (js_or (img_hdurl ?data) (Some (img_url ?data)))
               (img_storage_path ?data) (formatDate dev d) ?w1) = Inr (getCacheFilePath dev (formatDate dev d))"
    using assms(3) by (intro getImage_succeeds) (simp add: downloadable_def Let_def)
  then have "getCacheFilePath dev (formatDate dev d)
      \<in> entries (snd (getImage dev (js_or (img_hdurl ?data) (Some (img_url ?data)))
               (img_storage_path ?data) (formatDate dev d) ?w1))"
    by (rule getImage_success_entry)
  then show ?thesis
    by (simp add: preloadImageForDate_world [OF assms(1)] assms(2))
qed

section \<open>The claims\<close>

text \<open>
  C1: a no-data answer of the provider has to surface as the distinguished no-data error.
  Here the provider answers 404 with its no-data message for 2025-10-06, the date reaching
  the handler as the query parameter it reads. The handler treats the answer like every
  other provider error: status 400 and a body with nothing but the message. The client
  finds no code NASA_NO_DATA in that body, throws no \<^verbatim>\<open>NasaNoDataError\<close> and returns
  the null data.
\<close>

theorem provider_no_data_is_not_classified:
  "fst (serve (demo_edge (\<lambda>u. Responds 404 ''No data available for date: 2025-10-06'') None)
          (get_request ''2025-10-06'') empty_backend)
     = \<lparr>res_status = 400,
        res_body = Json_error (Some ''NASA API error: 404 - No data available for date: 2025-10-06'')\<rparr>
   \<and> fst (getNasaImageOfDay
           (demo_device (\<lambda>d. invoke_result_of (fst (serve
               (demo_edge (\<lambda>u. Responds 404 ''No data available for date: 2025-10-06'') None)
               (get_request d) empty_backend))) hd_down)
           ''2025-10-06'' empty_world)
     = Inr None"
proof -
  have n: "string_of_nat 404 = ''404''" by code_simp
  have s: "fst (serve (demo_edge (\<lambda>u. Responds 404 ''No data available for date: 2025-10-06'') None)
          (get_request ''2025-10-06'') empty_backend)
     = \<lparr>res_status = 400,
        res_body = Json_error (Some ''NASA API error: 404 - No data available for date: 2025-10-06'')\<rparr>"
    using n by (simp add: serve_defs demo_defs eval_nat_numeral)
  show ?thesis
    by (simp add: s getNasaImageOfDay_def invoke_result_of_def demo_device_def Let_def)
qed

text \<open>
  C2 (as stated): when the high-definition download fails, the standard remote URL is
  tried before the blob-store URL. The caller hands over one remote URL, the
  high-definition one when the record has it; with that URL failing and the standard URL
  reachable, the two calls made are the high-definition URL and then the blob-store URL,
  and the standard URL is never requested.
\<close>

theorem standard_url_not_tried_after_hd:
  "net (demo_device no_invoke hd_down) (img_url demo_image) = Status 200
   \<and> fst (getImage (demo_device no_invoke hd_down)
        (js_or (img_hdurl demo_image) (Some (img_url demo_image)))
        (img_storage_path demo_image) ''2025-10-04'' empty_world)
     = Inr ''file:///cache/nasa-images/2025-10-04.jpg''
   \<and> downloads (snd (getImage (demo_device no_invoke hd_down)
        (js_or (img_hdurl demo_image) (Some (img_url demo_image)))
        (img_storage_path demo_image) ''2025-10-04'' empty_world))
     = [(''https://apod.example/m31_hd.jpg'', ''file:///cache/nasa-images/2025-10-04.jpg''),
        (''https://blob.example/nasa-images/2025-10-04-m31.jpg'',
         ''file:///cache/nasa-images/2025-10-04.jpg'')]"
  by (simp add: cache_defs demo_device_def hd_down_def demo_image_def empty_world_def Let_def)

text \<open>
  C2 (amended): for an image record with no local entry, at most two sources are tried,
  in this order: one remote URL, which is the high-definition URL when the record has a
  non-empty one and the standard URL otherwise, and then, only if that download did not
  succeed, the blob-store public URL of the stored blob path when the record has one. The
  first success wins and leaves the file at the date's path; when every source tried
  fails, the call throws.
\<close>

theorem getImage_source_order:
  assumes "getCacheFilePath dev date \<notin> entries w"
      and "remote = (if truthy (img_hdurl data) then [the (img_hdurl data)]
                     else if img_url data \<noteq> [] then [img_url data] else [])"
      and "blob = (if truthy (img_storage_path data) \<and> (\<forall>u\<in>set remote. net dev u \<noteq> Status 200)
                   then [getNasaImagePublicUrl dev (the (img_storage_path data))] else [])"
      and "G = getImage dev (js_or (img_hdurl data) (Some (img_url data)))
                 (img_storage_path data) date w"
  shows "downloads (snd G) = downloads w @ map (\<lambda>u. (u, getCacheFilePath dev date)) (remote @ blob)
       \<and> ((\<exists>u\<in>set (remote @ blob). net dev u = Status 200)
            \<longrightarrow> fst G = Inr (getCacheFilePath dev date) \<and> getCacheFilePath dev date \<in> entries (snd G))
       \<and> ((\<forall>u\<in>set (remote @ blob). net dev u \<noteq> Status 200) \<longrightarrow> (\<exists>e. fst G = Inl e))"
proof -
  let ?n = "js_or (img_hdurl data) (Some (img_url data))"
  let ?p = "getCacheFilePath dev date"
  let ?b = "getNasaImagePublicUrl dev (the (img_storage_path data))"
  have miss: "\<not> truthy (getCachedImage dev date w)"
    using assms(1) by (rule getCachedImage_miss)
  have tn: "truthy ?n \<longleftrightarrow> remote \<noteq> []" and rn: "truthy ?n \<Longrightarrow> remote = [the ?n]"
    using assms(2) by (auto simp: js_or_def split: if_splits)
  show ?thesis
  proof (cases "truthy ?n")
    case False
    then have r: "remote = []" using tn by simp
    show ?thesis
    proof (cases "truthy (img_storage_path data)")
      case True
      with r assms(3) have b: "blob = [?b]" by simp
      have G: "G = downloadAndCache dev ?b date w"
        using miss False True assms(4) by (simp add: getImage_def Let_def)
      show ?thesis
        using downloadAndCache_downloads [of dev ?b date w] downloadAndCache_ok [of dev ?b date w]
          downloadAndCache_fail [of dev ?b date w]
        by (auto simp: r b G)
    next
      case nost: False
      with r assms(3) have b: "blob = []" by simp
      have G: "G = (Inl (Error ''No valid image URL available''), w)"
        using miss False nost assms(4) by (simp add: getImage_def Let_def)
      show ?thesis by (simp add: r b G)
    qed
  next
    case True
    then have r: "remote = [the ?n]" by (rule rn)
    obtain x w1 where d1: "downloadAndCache dev (the ?n) date w = (x, w1)"
      by (cases "downloadAndCache dev (the ?n) date w")
    have dl1: "downloads w1 = downloads w @ [(the ?n, ?p)]"
      using downloadAndCache_downloads [of dev "the ?n" date w] d1 by simp
    show ?thesis
    proof (cases "net dev (the ?n) = Status 200")
      case ok: True
      with r assms(3) have b: "blob = []" by simp
      from downloadAndCache_ok [OF ok, of date w] d1
      have x: "x = Inr ?p" and e: "?p \<in> entries w1" by simp_all
      have G: "G = (Inr ?p, w1)"
        using miss True d1 x assms(4) by (simp add: getImage_def Let_def)
      show ?thesis using ok by (simp add: r b G dl1 e)
    next
      case bad: False
      from downloadAndCache_fail [OF bad, of date w] d1 obtain e where x: "x = Inl e" by auto
      show ?thesis
      proof (cases "truthy (img_storage_path data)")
        case st: True
        with r bad assms(3) have b: "blob = [?b]" by simp
        have G: "G = downloadAndCache dev ?b date w1"
          using miss True d1 x st assms(4) by (simp add: getImage_def Let_def)
        show ?thesis
          using downloadAndCache_downloads [of dev ?b date w1] downloadAndCache_ok [of dev ?b date w1]
            downloadAndCache_fail [of dev ?b date w1] bad
          by (auto simp: r b G dl1)
      next
        case nost: False
        with r assms(3) have b: "blob = []" by simp
        have G: "G = (Inl (Error ''No valid image URL available''), w1)"
          using miss True d1 x nost assms(4) by (simp add: getImage_def Let_def)
        show ?thesis using bad by (simp add: r b G dl1)
      qed
    qed
  qed
qed

theorem getImage_source_order_witness:
  "getCacheFilePath (demo_device no_invoke hd_down) ''2025-10-04'' \<notin> entries empty_world
   \<and> (\<exists>u\<in>set [''https://apod.example/m31_hd.jpg'', ''https://blob.example/nasa-images/2025-10-04-m31.jpg''].
         net (demo_device no_invoke hd_down) u = Status 200)
   \<and> downloads (snd (getImage (demo_device no_invoke hd_down)
        (js_or (img_hdurl demo_image) (Some (img_url demo_image)))
        (img_storage_path demo_image) ''2025-10-04'' empty_world))
     = downloads empty_world @
       [(''https://apod.example/m31_hd.jpg'', getCacheFilePath (demo_device no_invoke hd_down) ''2025-10-04''),
        (''https://blob.example/nasa-images/2025-10-04-m31.jpg'',
         getCacheFilePath (demo_device no_invoke hd_down) ''2025-10-04'')]
   \<and> fst (getImage (demo_device no_invoke hd_down)
        (js_or (img_hdurl demo_image) (Some (img_url demo_image)))
        (img_storage_path demo_image) ''2025-10-04'' empty_world)
     = Inr (getCacheFilePath (demo_device no_invoke hd_down) ''2025-10-04'')"
proof -
  let ?dev = "demo_device no_invoke hd_down"
  let ?remote = "[''https://apod.example/m31_hd.jpg'']"
  let ?blob = "[''https://blob.example/nasa-images/2025-10-04-m31.jpg'']"
  have 1: "getCacheFilePath ?dev ''2025-10-04'' \<notin> entries empty_world"
    by (simp add: empty_world_def)
  have 2: "?remote = (if truthy (img_hdurl demo_image) then [the (img_hdurl demo_image)]
                     else if img_url demo_image \<noteq> [] then [img_url demo_image] else [])"
    by (simp add: demo_image_def)
  have 3: "?blob = (if truthy (img_storage_path demo_image) \<and> (\<forall>u\<in>set ?remote. net ?dev u \<noteq> Status 200)
                   then [getNasaImagePublicUrl ?dev (the (img_storage_path demo_image))] else [])"
    by (simp add: demo_image_def demo_device_def hd_down_def getNasaImagePublicUrl_def)
  have 4: "\<exists>u\<in>set (?remote @ ?blob). net ?dev u = Status 200"
    by (simp add: demo_device_def hd_down_def)
  note T = getImage_source_order [OF 1 2 3 refl]
  from T have d: "downloads (snd (getImage ?dev (js_or (img_hdurl demo_image) (Some (img_url demo_image)))
        (img_storage_path demo_image) ''2025-10-04'' empty_world))
     = downloads empty_world @ map (\<lambda>u. (u, getCacheFilePath ?dev ''2025-10-04'')) (?remote @ ?blob)"
    by blast
  from T 4 have f: "fst (getImage ?dev (js_or (img_hdurl demo_image) (Some (img_url demo_image)))
        (img_storage_path demo_image) ''2025-10-04'' empty_world)
     = Inr (getCacheFilePath ?dev ''2025-10-04'')"
    by blast
  from 1 4 d f show ?thesis by simp
qed

text \<open>
  C3: with no provider data for D and data at D-1, the walk has to end on D-1 with
  attempt 1 and move the cursor there. Here the provider has a record for 2025-10-05 and
  answers 404 with its no-data message for 2025-10-06, and the endpoint is the handler
  itself. The handler's answer for the sixth carries no code NASA_NO_DATA, the client
  returns null data, reading it throws a TypeError, and the load started on the sixth
  ends with that error after its single probe, the cursor still on the sixth.
\<close>

theorem walk_stops_at_first_no_data_date:
  "res_status (fst (serve october_edge (get_request ''2025-10-05'') empty_backend)) = 200
   \<and> fst (serve october_edge (get_request ''2025-10-06'') empty_backend)
     = \<lparr>res_status = 400,
        res_body = Json_error (Some ''NASA API error: 404 - No data available for date: 2025-10-06'')\<rparr>
   \<and> fst (loadImageForDate (demo_device (via_handler october_edge) hd_down) 24019200000 0
            (blank_screen, empty_world))
     = \<lparr>currentDate = 24019200000, imageData = None, localImageUri = None, loading = False,
        error = Some ''Cannot read property data of null'', console = [(''2025-10-06'', 0)]\<rparr>"
proof -
  let ?dev = "demo_device (via_handler october_edge) hd_down"
  have i: "functions_invoke ?dev ''2025-10-06''
     = \<lparr>inv_data = None, inv_error = Some (FunctionsHttpError (JsonObject
          \<lparr>err_error = Some ''NASA API error: 404 - No data available for date: 2025-10-06'',
           err_errorCode = None, err_date = None\<rparr>))\<rparr>"
    by (simp add: demo_device_def via_handler_def october_answers invoke_result_of_def)
  have g: "getNasaImageOfDay ?dev ''2025-10-06'' empty_world
     = (Inr None, empty_world\<lparr>invocations := [''2025-10-06'']\<rparr>)"
    by (simp add: getNasaImageOfDay_def i Let_def empty_world_def)
  have n: "null_read_text ?dev = ''Cannot read property data of null''"
    by (simp add: demo_device_def)
  have t: "loadImageForDate_try ?dev 24019200000 0
             (blank_screen\<lparr>loading := True, error := None, localImageUri := None\<rparr>, empty_world)
     = (Inl (TypeError ''Cannot read property data of null''),
        blank_screen\<lparr>loading := True, error := None, localImageUri := None,
                     console := [(''2025-10-06'', 0)]\<rparr>,
        empty_world\<lparr>invocations := [''2025-10-06'']\<rparr>)"
    by (simp add: loadImageForDate_try_def formatDate_demo g n Let_def) (simp add: blank_screen_def)
  have "fst (loadImageForDate ?dev 24019200000 0 (blank_screen, empty_world))
     = \<lparr>currentDate = 24019200000, imageData = None, localImageUri = None, loading = False,
        error = Some ''Cannot read property data of null'', console = [(''2025-10-06'', 0)]\<rparr>"
    by (subst loadImageForDate.simps) (simp add: t Let_def otherMessage_def, simp add: blank_screen_def)
  then show ?thesis by (simp add: october_answers)
qed

text \<open>
  C4: with the attempt cap 20 and the horizon of 50 calendar days before the clock
  reading, a probe whose try block throws is settled as follows. A \<^verbatim>\<open>NasaNoDataError\<close>
  steps back one calendar day, with the attempt raised by one and the cursor moved,
  exactly when the attempt is below 20 and the day before the probe date is not older
  than the horizon; otherwise the walk ends with the message for the attempt cap when the
  attempt has reached 20 and with the message for the date range when it has not. Every
  other thrown value ends the walk with its own message. In the two ending cases the
  cursor keeps its value and the probe just made is the last one.
\<close>

theorem retry_walk_step:
  assumes "loadImageForDate_try dev date retryCount
             (ui\<lparr>loading := True, error := None, localImageUri := None\<rparr>, w) = (Inl err, ui1, w1)"
  shows "MAX_RETRY_DAYS = 20 \<and> MAX_DAYS_BACK = 50
       \<and> currentDate ui1 = currentDate ui
       \<and> console ui1 = console ui @ [(formatDate dev date, retryCount)]
       \<and> loadImageForDate dev date retryCount (ui, w) =
           (if instanceof_NasaNoDataError err
            then if retryCount < 20
                    \<and> addDays dev (now dev retryCount) (- 50) \<le> addDays dev date (- 1)
                 then (case loadImageForDate dev (addDays dev date (- 1)) (retryCount + 1)
                              (ui1\<lparr>currentDate := addDays dev date (- 1)\<rparr>, w1) of
                         (ui2, w2) \<Rightarrow> (ui2\<lparr>loading := False\<rparr>, w2))
                 else (ui1\<lparr>error := Some (if 20 \<le> retryCount
                                            then ''No NASA images available for the last 20 days''
                                            else ''No NASA images available in the allowed date range''),
                          loading := False\<rparr>, w1)
            else (ui1\<lparr>error := otherMessage err, loading := False\<rparr>, w1))"
proof -
  have n: "string_of_nat 20 = ''20''" by code_simp
  have f: "currentDate ui1 = currentDate ui
         \<and> console ui1 = console ui @ [(formatDate dev date, retryCount)]"
    using try_frame [OF assms] by simp
  have "loadImageForDate dev date retryCount (ui, w) =
           (if instanceof_NasaNoDataError err
            then if retryCount < 20
                    \<and> addDays dev (now dev retryCount) (- 50) \<le> addDays dev date (- 1)
                 then (case loadImageForDate dev (addDays dev date (- 1)) (retryCount + 1)
                              (ui1\<lparr>currentDate := addDays dev date (- 1)\<rparr>, w1) of
                         (ui2, w2) \<Rightarrow> (ui2\<lparr>loading := False\<rparr>, w2))
                 else (ui1\<lparr>error := Some (if 20 \<le> retryCount
                                            then ''No NASA images available for the last 20 days''
                                            else ''No NASA images available in the allowed date range''),
                          loading := False\<rparr>, w1)
            else (ui1\<lparr>error := otherMessage err, loading := False\<rparr>, w1))"
    by (subst loadImageForDate.simps)
      (simp add: assms Let_def retryMessage_def MAX_RETRY_DAYS_def MAX_DAYS_BACK_def n)
  with f show ?thesis by (simp add: MAX_RETRY_DAYS_def MAX_DAYS_BACK_def)
qed

theorem retry_walk_step_witness:
  "fst (loadImageForDate (demo_device fourth_only hd_down) 24019200000 0 (blank_screen, empty_world))
     = \<lparr>currentDate = 23846400000, imageData = Some demo_image,
        localImageUri = Some ''file:///cache/nasa-images/2025-10-04.jpg'', loading = False,
        error = None,
        console = [(''2025-10-06'', 0), (''2025-10-05'', 1), (''2025-10-04'', 2)]\<rparr>
   \<and> fst (loadImageForDate (demo_device no_data_answer hd_down) 24019200000 20
            (blank_screen, empty_world))
     = \<lparr>currentDate = 24019200000, imageData = None, localImageUri = None, loading = False,
        error = Some ''No NASA images available for the last 20 days'',
        console = [(''2025-10-06'', 20)]\<rparr>
   \<and> fst (loadImageForDate (demo_device no_data_answer hd_down) 19526400000 0
            (blank_screen, empty_world))
     = \<lparr>currentDate = 24019200000, imageData = None, localImageUri = None, loading = False,
        error = Some ''No NASA images available in the allowed date range'',
        console = [(''2025-08-15'', 0)]\<rparr>
   \<and> fst (loadImageForDate (demo_device no_invoke hd_down) 24019200000 0 (blank_screen, empty_world))
     = \<lparr>currentDate = 24019200000, imageData = None, localImageUri = None, loading = False,
        error = Some ''Cannot read property data of null'', console = [(''2025-10-06'', 0)]\<rparr>"
proof -
  let ?F = "demo_device fourth_only hd_down"
  let ?N = "demo_device no_data_answer hd_down"
  let ?O = "demo_device no_invoke hd_down"
  let ?ui0 = "blank_screen\<lparr>loading := True, error := None, localImageUri := None\<rparr>"
  let ?nd = "\<lambda>d. NasaNoDataError (Some ''No data available for this date'') (Some d)"
  have tries: "\<And>dev t r d ui w. functions_invoke dev d = no_data_answer d \<Longrightarrow> formatDate dev t = d \<Longrightarrow>
      loadImageForDate_try dev t r (ui, w)
        = (Inl (?nd d), ui\<lparr>console := console ui @ [(d, r)]\<rparr>, w\<lparr>invocations := invocations w @ [d]\<rparr>)"
    by (simp add: loadImageForDate_try_def getNasaImageOfDay_def Let_def no_data_answer_def)
  \<comment> \<open>the attempt cap\<close>
  have a: "loadImageForDate_try ?N 24019200000 20 (?ui0, empty_world)
      = (Inl (?nd ''2025-10-06''), ?ui0\<lparr>console := console ?ui0 @ [(''2025-10-06'', 20)]\<rparr>,
         empty_world\<lparr>invocations := invocations empty_world @ [''2025-10-06'']\<rparr>)"
    by (rule tries) (simp_all add: formatDate_demo, simp add: demo_device_def)
  have A: "fst (loadImageForDate ?N 24019200000 20 (blank_screen, empty_world))
     = \<lparr>currentDate = 24019200000, imageData = None, localImageUri = None, loading = False,
        error = Some ''No NASA images available for the last 20 days'',
        console = [(''2025-10-06'', 20)]\<rparr>"
    using retry_walk_step [OF a, THEN conjunct2, THEN conjunct2, THEN conjunct2, THEN conjunct2] by (simp add: blank_screen_def)
  \<comment> \<open>the date horizon\<close>
  have b: "loadImageForDate_try ?N 19526400000 0 (?ui0, empty_world)
      = (Inl (?nd ''2025-08-15''), ?ui0\<lparr>console := console ?ui0 @ [(''2025-08-15'', 0)]\<rparr>,
         empty_world\<lparr>invocations := invocations empty_world @ [''2025-08-15'']\<rparr>)"
    by (rule tries) (simp_all add: formatDate_demo_august, simp add: demo_device_def)
  have nowN: "now ?N 0 = 24019201000" by (simp add: demo_device_def)
  have B: "fst (loadImageForDate ?N 19526400000 0 (blank_screen, empty_world))
     = \<lparr>currentDate = 24019200000, imageData = None, localImageUri = None, loading = False,
        error = Some ''No NASA images available in the allowed date range'',
        console = [(''2025-08-15'', 0)]\<rparr>"
    using retry_walk_step [OF b, THEN conjunct2, THEN conjunct2, THEN conjunct2, THEN conjunct2] by (simp add: addDays_demo nowN blank_screen_def)
  \<comment> \<open>another error\<close>
  have c: "loadImageForDate_try ?O 24019200000 0 (?ui0, empty_world)
     = (Inl (TypeError ''Cannot read property data of null''),
        ?ui0\<lparr>console := console ?ui0 @ [(''2025-10-06'', 0)]\<rparr>,
        empty_world\<lparr>invocations := invocations empty_world @ [''2025-10-06'']\<rparr>)"
    by (simp add: loadImageForDate_try_def getNasaImageOfDay_def Let_def formatDate_demo)
      (simp add: demo_device_def no_invoke_def)
  have C: "fst (loadImageForDate ?O 24019200000 0 (blank_screen, empty_world))
     = \<lparr>currentDate = 24019200000, imageData = None, localImageUri = None, loading = False,
        error = Some ''Cannot read property data of null'', console = [(''2025-10-06'', 0)]\<rparr>"
    using retry_walk_step [OF c, THEN conjunct2, THEN conjunct2, THEN conjunct2, THEN conjunct2] by (simp add: otherMessage_def blank_screen_def)
  \<comment> \<open>two steps back and a success\<close>
  let ?u1 = "?ui0\<lparr>console := console ?ui0 @ [(''2025-10-06'', 0)]\<rparr>"
  let ?w1 = "empty_world\<lparr>invocations := invocations empty_world @ [''2025-10-06'']\<rparr>"
  let ?a5 = "?u1\<lparr>currentDate := 23932800000\<rparr>"
  let ?u2 = "?a5\<lparr>loading := True, error := None, localImageUri := None,
                  console := console ?a5 @ [(''2025-10-05'', 1)]\<rparr>"
  let ?w2 = "?w1\<lparr>invocations := invocations ?w1 @ [''2025-10-05'']\<rparr>"
  let ?a4 = "?u2\<lparr>currentDate := 23846400000\<rparr>"
  have nowF: "now ?F 0 = 24019201000" "now ?F 1 = 24019202000" by (simp_all add: demo_device_def)
  have d6: "loadImageForDate_try ?F 24019200000 0 (?ui0, empty_world) = (Inl (?nd ''2025-10-06''), ?u1, ?w1)"
    by (rule tries) (simp_all add: formatDate_demo, simp add: demo_device_def fourth_only_def)
  have d5: "loadImageForDate_try ?F 23932800000 1
              (?a5\<lparr>loading := True, error := None, localImageUri := None\<rparr>, ?w1)
            = (Inl (?nd ''2025-10-05''), ?u2, ?w2)"
    by (subst tries [where d = "''2025-10-05''"])
      (simp_all add: formatDate_demo, simp add: demo_device_def fourth_only_def)
  have r4: "resolves ?F (formatDate ?F 23846400000) \<lparr>resp_data = demo_image, resp_cached = True\<rparr>"
    by (simp add: formatDate_demo) (simp add: resolves_def demo_device_def fourth_only_def)
  have dl: "img_media_type (resp_data \<lparr>resp_data = demo_image, resp_cached = True\<rparr>) = ''image''
              \<longrightarrow> downloadable ?F (resp_data \<lparr>resp_data = demo_image, resp_cached = True\<rparr>)"
    by (simp add: downloadable_def demo_image_def demo_device_def hd_down_def js_or_def
        getNasaImagePublicUrl_def)
  from load_success [OF r4 dl, of 2 ?a4 ?w2] obtain w' where
    L4: "loadImageForDate ?F 23846400000 2 (?a4, ?w2)
       = (?a4\<lparr>loading := False, error := None,
               localImageUri := Some (shown ?F demo_image (formatDate ?F 23846400000)),
               imageData := Some demo_image,
               console := console ?a4 @ [(formatDate ?F 23846400000, 2)]\<rparr>, w')"
    by auto
  let ?fin = "?a4\<lparr>loading := False, error := None,
               localImageUri := Some (shown ?F demo_image (formatDate ?F 23846400000)),
               imageData := Some demo_image,
               console := console ?a4 @ [(formatDate ?F 23846400000, 2)]\<rparr>"
  have fstc: "\<And>p :: screen \<times> world. fst (case p of (ui2, w2) \<Rightarrow> (ui2\<lparr>loading := False\<rparr>, w2))
                = (fst p)\<lparr>loading := False\<rparr>"
    by (simp add: split_beta)
  have nd: "\<And>d. instanceof_NasaNoDataError (?nd d)" by simp
  have one: "(1::nat) + 1 = 2" "(0::nat) + 1 = 1" by simp_all
  have p5: "addDays ?F 23932800000 (- 1) = 23846400000"
    and p6: "addDays ?F 24019200000 (- 1) = 23932800000"
    by (simp_all add: addDays_demo)
  have k5: "(1::nat) < 20" "addDays ?F (now ?F 1) (- 50) \<le> 23846400000"
    and k6: "(0::nat) < 20" "addDays ?F (now ?F 0) (- 50) \<le> 23932800000"
    by (simp_all only: addDays_demo) (simp_all add: demo_device_def)
  have "loadImageForDate ?F 23932800000 1 (?a5, ?w1)
      = (case loadImageForDate ?F 23846400000 2 (?a4, ?w2) of
           (ui2, w2) \<Rightarrow> (ui2\<lparr>loading := False\<rparr>, w2))"
    using retry_walk_step [OF d5, THEN conjunct2, THEN conjunct2, THEN conjunct2, THEN conjunct2]
    by (simp only: nd k5 simp_thms if_True p5 one)
  then have L5: "fst (loadImageForDate ?F 23932800000 1 (?a5, ?w1)) = ?fin\<lparr>loading := False\<rparr>"
    by (simp only: L4 fstc fst_conv)
  have "loadImageForDate ?F 24019200000 0 (blank_screen, empty_world)
      = (case loadImageForDate ?F 23932800000 1 (?a5, ?w1) of
           (ui2, w2) \<Rightarrow> (ui2\<lparr>loading := False\<rparr>, w2))"
    using retry_walk_step [OF d6, THEN conjunct2, THEN conjunct2, THEN conjunct2, THEN conjunct2]
    by (simp only: nd k6 simp_thms if_True p6 one)
  then have L6: "fst (loadImageForDate ?F 24019200000 0 (blank_screen, empty_world))
      = ?fin\<lparr>loading := False, loading := False\<rparr>"
    by (simp only: L5 fstc)
  have sh: "shown ?F demo_image ''2025-10-04'' = ''file:///cache/nasa-images/2025-10-04.jpg''"
    by (simp add: shown_def demo_image_def getCacheFilePath_def CACHE_DIR_def demo_device_def)
  have D: "fst (loadImageForDate ?F 24019200000 0 (blank_screen, empty_world))
     = \<lparr>currentDate = 23846400000, imageData = Some demo_image,
        localImageUri = Some ''file:///cache/nasa-images/2025-10-04.jpg'', loading = False,
        error = None,
        console = [(''2025-10-06'', 0), (''2025-10-05'', 1), (''2025-10-04'', 2)]\<rparr>"
    unfolding L6 by (simp add: formatDate_demo sh) (simp add: blank_screen_def)
  from A B C D show ?thesis by simp
qed

text \<open>
  C5 (as stated): on a unique-key violation of the insert the existing record is re-read
  and returned. Here another request commits the row for 2024-10-05 between this request's
  select and its insert; the handler answers status 400 with the violation's message, and
  its calls to the record store are the one select and the one insert, with no select
  after the violation.
\<close>

theorem insert_race_not_reread:
  "fst (serve (demo_edge (\<lambda>u. Responds 200 ''apod'') (Some demo_row))
          (get_request ''2024-10-05'') empty_backend)
     = \<lparr>res_status = 400,
        res_body = Json_error (Some ''duplicate key value violates unique constraint'')\<rparr>
   \<and> res_body (fst (serve (demo_edge (\<lambda>u. Responds 200 ''apod'') (Some demo_row))
          (get_request ''2024-10-05'') empty_backend))
     \<notin> {Json_data demo_row True, Json_data demo_row False}
   \<and> store_calls (snd (serve (demo_edge (\<lambda>u. Responds 200 ''apod'') (Some demo_row))
          (get_request ''2024-10-05'') empty_backend))
     = [Select ''2024-10-05'', Insert ''2024-10-05'']"
  by (simp add: serve_defs demo_defs eval_nat_numeral)

text \<open>
  C5 (amended): the fresh record is written with an insert, which never replaces a row,
  and a unique-key violation of that insert is fatal to the request: when another request
  has committed the row for the date after this request's select missed it, the handler
  answers status 400 with the violation's message, and the row of the other request stays
  in the table. It is not returned and not re-read: the calls of the request to the
  stores are the select that missed, the uploads of the copies, and the insert as the
  last call.
\<close>

theorem insert_race_is_fatal:
  assumes "req_method req \<noteq> ''OPTIONS''" and "NASA_API_KEY env = Some key" and "key \<noteq> []"
      and "req_date req = Some date" and "dateRegex_test date"
      and "\<forall>call. store_fault env call = None"
      and "nasa_images st date = None"
      and "fetch env (''https://api.nasa.gov/planetary/apod?api_key='' @ key @ ''&date='' @ date)
             = Responds c t"
      and "200 \<le> c \<and> c \<le> 299"
      and "parse_apod env t = Some nasaData" and "apod_date nasaData = date"
      and "apod_media_type nasaData = ''image''
             \<longrightarrow> (\<exists>c' b. fetch env (apod_url nasaData) = Responds c' b)"
      and "racing_insert env = Some other" and "img_date other = date"
  shows "fst (serve env req st)
           = \<lparr>res_status = 400,
              res_body = Json_error (Some ''duplicate key value violates unique constraint'')\<rparr>
       \<and> nasa_images (snd (serve env req st)) date = Some other
       \<and> (\<exists>names. store_calls (snd (serve env req st))
              = store_calls st @ Select date # map Upload names @ [Insert date])"
proof -
  let ?u = "''https://api.nasa.gov/planetary/apod?api_key='' @ key @ ''&date='' @ date"
  let ?st1 = "st\<lparr>store_calls := store_calls st @ [Select date]\<rparr>"
  let ?st1' = "?st1\<lparr>fetches := fetches ?st1 @ [?u]\<rparr>"
  have ne: "date \<noteq> []" using assms(5) by (auto simp: dateRegex_test_def eval_nat_numeral)
  obtain p st2 where si: "store_images env date nasaData ?st1' = (Inr p, st2)"
    using store_images_Inr [OF assms(12), of date ?st1'] by (metis prod.collapse)
  obtain sp hsp where p: "p = (sp, hsp)" by (cases p)
  have n2: "nasa_images st2 = nasa_images st"
    using store_images_nasa_images [of env date nasaData ?st1'] si by simp
  obtain names where c2: "store_calls st2 = store_calls st @ Select date # map Upload names"
    using store_images_store_calls [of env date nasaData ?st1'] si by auto
  have "serve_try env req st = serve_fresh env key date ?st1"
    using assms ne by (simp add: serve_try_def select_single_def Let_def)
  moreover
  have "fst (serve_fresh env key date ?st1)
          = Inl (Error ''duplicate key value violates unique constraint'')
      \<and> nasa_images (snd (serve_fresh env key date ?st1)) date = Some other
      \<and> store_calls (snd (serve_fresh env key date ?st1))
          = store_calls st @ Select date # map Upload names @ [Insert date]"
    using assms si p n2 c2 by (simp add: serve_fresh_def insert_single_def Let_def)
  ultimately obtain st' where
        "serve_try env req st = (Inl (Error ''duplicate key value violates unique constraint''), st')"
    and "nasa_images st' date = Some other"
    and "store_calls st' = store_calls st @ Select date # map Upload names @ [Insert date]"
    by (metis prod.collapse)
  then show ?thesis
    using assms(1) by (auto simp: serve_def)
qed

theorem insert_race_is_fatal_witness:
  "dateRegex_test ''2024-10-05''
   \<and> racing_insert (demo_edge (\<lambda>u. Responds 200 ''apod'') (Some demo_row)) = Some demo_row
   \<and> nasa_images empty_backend ''2024-10-05'' = None
   \<and> fst (serve (demo_edge (\<lambda>u. Responds 200 ''apod'') (Some demo_row))
            (get_request ''2024-10-05'') empty_backend)
       = \<lparr>res_status = 400,
          res_body = Json_error (Some ''duplicate key value violates unique constraint'')\<rparr>
   \<and> nasa_images (snd (serve (demo_edge (\<lambda>u. Responds 200 ''apod'') (Some demo_row))
            (get_request ''2024-10-05'') empty_backend)) ''2024-10-05'' = Some demo_row
   \<and> (\<exists>names. store_calls (snd (serve (demo_edge (\<lambda>u. Responds 200 ''apod'') (Some demo_row))
            (get_request ''2024-10-05'') empty_backend))
         = Select ''2024-10-05'' # map Upload names @ [Insert ''2024-10-05''])"
proof -
  let ?E = "demo_edge (\<lambda>u. Responds 200 ''apod'') (Some demo_row)"
  let ?R = "get_request ''2024-10-05''"
  have d: "dateRegex_test ''2024-10-05''" by (simp add: demo_defs eval_nat_numeral)
  have r: "racing_insert ?E = Some demo_row" by (simp add: demo_edge_def)
  have n: "nasa_images empty_backend ''2024-10-05'' = None" by (simp add: empty_backend_def)
  have s0: "store_calls empty_backend = []" by (simp add: empty_backend_def)
  have "fst (serve ?E ?R empty_backend)
          = \<lparr>res_status = 400,
             res_body = Json_error (Some ''duplicate key value violates unique constraint'')\<rparr>
      \<and> nasa_images (snd (serve ?E ?R empty_backend)) ''2024-10-05'' = Some demo_row
      \<and> (\<exists>names. store_calls (snd (serve ?E ?R empty_backend))
            = store_calls empty_backend @ Select ''2024-10-05'' # map Upload names @ [Insert ''2024-10-05''])"
  proof (rule insert_race_is_fatal [where key = "''DEMO_KEY''" and c = 200 and t = "''apod''"
          and nasaData = demo_apod])
    show "req_method ?R \<noteq> ''OPTIONS''" by (simp add: get_request_def)
    show "NASA_API_KEY ?E = Some ''DEMO_KEY''" by (simp add: demo_edge_def)
    show "''DEMO_KEY'' \<noteq> []" by simp
    show "req_date ?R = Some ''2024-10-05''" by (simp add: get_request_def)
    show "dateRegex_test ''2024-10-05''" by (rule d)
    show "\<forall>call. store_fault ?E call = None" by (simp add: demo_edge_def)
    show "nasa_images empty_backend ''2024-10-05'' = None" by (rule n)
    show "fetch ?E (''https://api.nasa.gov/planetary/apod?api_key='' @ ''DEMO_KEY'' @ ''&date=''
            @ ''2024-10-05'') = Responds 200 ''apod''" by (simp add: demo_edge_def)
    show "200 \<le> (200::nat) \<and> (200::nat) \<le> 299" by simp
    show "parse_apod ?E ''apod'' = Some demo_apod" by (simp add: demo_edge_def)
    show "apod_date demo_apod = ''2024-10-05''" by (simp add: demo_apod_def)
    show "apod_media_type demo_apod = ''image''
            \<longrightarrow> (\<exists>c' b. fetch ?E (apod_url demo_apod) = Responds c' b)"
      by (simp add: demo_edge_def)
    show "racing_insert ?E = Some demo_row" by (rule r)
    show "img_date demo_row = ''2024-10-05''" by (simp add: demo_row_def)
  qed
  with d r n s0 show ?thesis by simp
qed

text \<open>
  C6 (as stated): a string such as 2024-13-40 is malformed and is rejected before any
  call. It matches the pattern, so the handler looks it up in the record store and, on
  the miss, asks the provider.
\<close>

theorem non_calendar_date_reaches_stores:
  "dateRegex_test ''2024-13-40''
   \<and> store_calls (snd (serve (demo_edge (\<lambda>u. Responds 400 ''Bad Request'') None)
                      (get_request ''2024-13-40'') empty_backend)) = [Select ''2024-13-40'']
   \<and> fetches (snd (serve (demo_edge (\<lambda>u. Responds 400 ''Bad Request'') None)
                      (get_request ''2024-13-40'') empty_backend))
       = [''https://api.nasa.gov/planetary/apod?api_key=DEMO_KEY&date=2024-13-40'']"
  by (simp add: serve_defs demo_defs eval_nat_numeral)

text \<open>
  C6 (amended): a request whose date is missing or does not match
  \<^verbatim>\<open>^\d{4}-\d{2}-\d{2}$\<close> (such as 10-05-2024) is rejected before any call: the
  backend state, with its logs of store calls and fetches, is returned unchanged, and the
  answer to a request other than the preflight has status 400.
\<close>

theorem unmatched_date_rejected_before_any_call:
  assumes "req_date req = None \<or> \<not> dateRegex_test (the (req_date req))"
  shows "snd (serve env req st) = st
       \<and> (req_method req \<noteq> ''OPTIONS'' \<longrightarrow> res_status (fst (serve env req st)) = 400)"
proof -
  have "\<not> truthy (req_date req) \<or> \<not> dateRegex_test (the (req_date req))"
    using assms by auto
  then show ?thesis
    by (auto simp: serve_def serve_try_def Let_def)
qed

theorem unmatched_date_rejected_before_any_call_witness:
  "(req_date (get_request ''10-05-2024'') = None
      \<or> \<not> dateRegex_test (the (req_date (get_request ''10-05-2024''))))
   \<and> req_method (get_request ''10-05-2024'') \<noteq> ''OPTIONS''
   \<and> snd (serve (demo_edge (\<lambda>u. Responds 200 ''apod'') None) (get_request ''10-05-2024'')
             empty_backend) = empty_backend
   \<and> res_status (fst (serve (demo_edge (\<lambda>u. Responds 200 ''apod'') None)
                        (get_request ''10-05-2024'') empty_backend)) = 400"
proof -
  have h: "req_date (get_request ''10-05-2024'') = None
             \<or> \<not> dateRegex_test (the (req_date (get_request ''10-05-2024'')))"
    by (simp add: demo_defs eval_nat_numeral)
  have m: "req_method (get_request ''10-05-2024'') \<noteq> ''OPTIONS''"
    by (simp add: get_request_def)
  show ?thesis
    using h m
      unmatched_date_rejected_before_any_call
        [OF h, of "demo_edge (\<lambda>u. Responds 200 ''apod'') None" empty_backend]
    by simp
qed

text \<open>
  C7: for a date that matches the pattern and has a row in the record store, the handler
  answers with that row and \<open>cached = true\<close> after the one select, and the log of
  fetches is untouched, so the provider is not called. Whenever the handler answers with
  a record, its \<open>cached\<close> flag is true exactly when no fetch was made: a freshly
  resolved record carries \<open>cached = false\<close>.
\<close>

theorem stored_record_served_without_provider:
  "(req_method req \<noteq> ''OPTIONS'' \<and> truthy (NASA_API_KEY env) \<and> req_date req = Some date
      \<and> dateRegex_test date \<and> store_fault env (Select date) = None \<and> nasa_images st date = Some row
    \<longrightarrow> serve env req st =
          (\<lparr>res_status = 200, res_body = Json_data row True\<rparr>,
           st\<lparr>store_calls := store_calls st @ [Select date]\<rparr>))
   \<and> (res_body (fst (serve env req st)) = Json_data r c
    \<longrightarrow> c = (fetches (snd (serve env req st)) = fetches st))"
proof (intro conjI impI)
  assume h: "req_method req \<noteq> ''OPTIONS'' \<and> truthy (NASA_API_KEY env) \<and> req_date req = Some date
      \<and> dateRegex_test date \<and> store_fault env (Select date) = None \<and> nasa_images st date = Some row"
  then have "date \<noteq> []" by (auto simp: dateRegex_test_def eval_nat_numeral)
  with h show "serve env req st =
          (\<lparr>res_status = 200, res_body = Json_data row True\<rparr>,
           st\<lparr>store_calls := store_calls st @ [Select date]\<rparr>)"
    by (simp add: serve_def serve_try_def select_single_def Let_def)
next
  assume b: "res_body (fst (serve env req st)) = Json_data r c"
  show "c = (fetches (snd (serve env req st)) = fetches st)"
  proof (cases "req_method req = ''OPTIONS''")
    case True
    with b show ?thesis by (simp add: serve_def)
  next
    case False
    obtain x st' where t: "serve_try env req st = (x, st')" by (cases "serve_try env req st")
    show ?thesis
    proof (cases x)
      case (Inl e)
      with b False t show ?thesis by (simp add: serve_def)
    next
      case (Inr res)
      with False t have s: "serve env req st = (res, st')" by (simp add: serve_def)
      from t Inr have k: "truthy (NASA_API_KEY env)" "truthy (req_date req)"
          "dateRegex_test (the (req_date req))"
        by (auto simp: serve_try_def Let_def split: if_splits)
      obtain ex fe st1 where sel: "select_single env (the (req_date req)) st = ((ex, fe), st1)"
        by (metis surj_pair)
      have f1: "fetches st1 = fetches st"
        using select_single_fetches [of env "the (req_date req)" st] sel by simp
      show ?thesis
      proof (cases "ex \<noteq> None")
        case True
        with t Inr k sel
        have "res = \<lparr>res_status = 200, res_body = Json_data (the ex) True\<rparr>" "st' = st1"
          by (auto simp: serve_try_def Let_def split: if_splits)
        with s b f1 show ?thesis by simp
      next
        case False
        with t Inr k sel
        have fr: "serve_fresh env (the (NASA_API_KEY env)) (the (req_date req)) st1 = (Inr res, st')"
          by (auto simp: serve_try_def Let_def split: if_splits)
        from serve_fresh_body [OF fr] s b have "c = False" by auto
        moreover
        from serve_fresh_fetches [of env "the (NASA_API_KEY env)" "the (req_date req)" st1] fr f1
        have "fetches st' \<noteq> fetches st" by auto
        ultimately show ?thesis using s by simp
      qed
    qed
  qed
qed

theorem stored_record_served_without_provider_witness:
  "serve (demo_edge (\<lambda>u. Rejects ''offline'') None) (get_request ''2024-10-05'')
         (empty_backend\<lparr>nasa_images := [''2024-10-05'' \<mapsto> demo_row]\<rparr>)
     = (\<lparr>res_status = 200, res_body = Json_data demo_row True\<rparr>,
        empty_backend\<lparr>nasa_images := [''2024-10-05'' \<mapsto> demo_row],
                      store_calls := [Select ''2024-10-05'']\<rparr>)
   \<and> res_body (fst (serve (demo_edge (\<lambda>u. Responds 200 ''apod'') None)
                       (get_request ''2024-10-05'') empty_backend))
       = Json_data (demo_row\<lparr>img_id := ''uuid-1'', img_created_at := ''t1'', img_updated_at := ''t1''\<rparr>) False
   \<and> fetches (snd (serve (demo_edge (\<lambda>u. Responds 200 ''apod'') None)
                       (get_request ''2024-10-05'') empty_backend)) \<noteq> fetches empty_backend"
proof -
  let ?E = "demo_edge (\<lambda>u. Rejects ''offline'') None"
  let ?R = "get_request ''2024-10-05''"
  let ?B = "empty_backend\<lparr>nasa_images := [''2024-10-05'' \<mapsto> demo_row]\<rparr>"
  let ?E' = "demo_edge (\<lambda>u. Responds 200 ''apod'') None"
  let ?row = "demo_row\<lparr>img_id := ''uuid-1'', img_created_at := ''t1'', img_updated_at := ''t1''\<rparr>"
  have h: "req_method ?R \<noteq> ''OPTIONS'' \<and> truthy (NASA_API_KEY ?E) \<and> req_date ?R = Some ''2024-10-05''
      \<and> dateRegex_test ''2024-10-05'' \<and> store_fault ?E (Select ''2024-10-05'') = None
      \<and> nasa_images ?B ''2024-10-05'' = Some demo_row"
    by (simp add: demo_defs eval_nat_numeral)
  have b: "res_body (fst (serve ?E' ?R empty_backend)) = Json_data ?row False"
    by (simp add: serve_defs demo_defs eval_nat_numeral)
  have 1: "serve ?E ?R ?B = (\<lparr>res_status = 200, res_body = Json_data demo_row True\<rparr>,
             ?B\<lparr>store_calls := store_calls ?B @ [Select ''2024-10-05'']\<rparr>)"
    using stored_record_served_without_provider [of ?R ?E "''2024-10-05''" ?B demo_row] h by blast
  have 2: "False = (fetches (snd (serve ?E' ?R empty_backend)) = fetches empty_backend)"
    using stored_record_served_without_provider [of ?R ?E' _ empty_backend _ ?row False] b by blast
  from 1 2 b show ?thesis by (simp add: empty_backend_def)
qed

text \<open>
  C8: when a date has no local entry and a first call of \<^verbatim>\<open>getImage\<close> succeeds, a
  second call for the same date, whatever URLs it is given, returns the same path and
  leaves the world as it is: no download call and no other access is added. Of the
  download calls made across the two calls exactly one completed with status 200.
\<close>

theorem getImage_idempotent:
  assumes "getCacheFilePath dev date \<notin> entries w"
      and "getImage dev nasaUrl storagePath date w = (Inr localUri, w1)"
  shows "getImage dev nasaUrl' storagePath' date w1 = (Inr localUri, w1)
       \<and> length (filter (\<lambda>(u, t). net dev u = Status 200)
                   (drop (length (downloads w))
                      (downloads (snd (getImage dev nasaUrl' storagePath' date w1))))) = 1"
proof -
  let ?p = "getCacheFilePath dev date"
  let ?b = "getNasaImagePublicUrl dev (the storagePath)"
  have miss: "\<not> truthy (getCachedImage dev date w)"
    using assms(1) by (rule getCachedImage_miss)
  have key: "localUri = ?p \<and> ?p \<in> entries w1
      \<and> length (filter (\<lambda>(u, t). net dev u = Status 200) (drop (length (downloads w)) (downloads w1))) = 1"
  proof (cases "truthy nasaUrl")
    case True
    obtain x w' where d1: "downloadAndCache dev (the nasaUrl) date w = (x, w')"
      by (cases "downloadAndCache dev (the nasaUrl) date w")
    have dl1: "downloads w' = downloads w @ [(the nasaUrl, ?p)]"
      using downloadAndCache_downloads [of dev "the nasaUrl" date w] d1 by simp
    show ?thesis
    proof (cases "net dev (the nasaUrl) = Status 200")
      case ok: True
      from downloadAndCache_ok [OF ok, of date w] d1
      have x: "x = Inr ?p" and e: "?p \<in> entries w'" by simp_all
      have "getImage dev nasaUrl storagePath date w = (Inr ?p, w')"
        using miss True d1 x by (simp add: getImage_def Let_def)
      with assms(2) have "localUri = ?p" "w1 = w'" by simp_all
      then show ?thesis using e dl1 ok by simp
    next
      case bad: False
      from downloadAndCache_fail [OF bad, of date w] d1 obtain e where x: "x = Inl e" by auto
      have st: "truthy storagePath"
        using miss True d1 x assms(2) by (auto simp: getImage_def Let_def split: if_splits)
      have G: "downloadAndCache dev ?b date w' = (Inr localUri, w1)"
        using miss True d1 x st assms(2) by (simp add: getImage_def Let_def)
      have ok2: "net dev ?b = Status 200"
        using downloadAndCache_fail [of dev ?b date w'] G by auto
      from downloadAndCache_ok [OF ok2, of date w'] G
      have "localUri = ?p" "?p \<in> entries w1" by simp_all
      moreover have "downloads w1 = downloads w @ [(the nasaUrl, ?p), (?b, ?p)]"
        using downloadAndCache_downloads [of dev ?b date w'] G dl1 by simp
      ultimately show ?thesis using bad ok2 by simp
    qed
  next
    case False
    have st: "truthy storagePath"
      using miss False assms(2) by (auto simp: getImage_def Let_def split: if_splits)
    have G: "downloadAndCache dev ?b date w = (Inr localUri, w1)"
      using miss False st assms(2) by (simp add: getImage_def Let_def)
    have ok2: "net dev ?b = Status 200"
      using downloadAndCache_fail [of dev ?b date w] G by auto
    from downloadAndCache_ok [OF ok2, of date w] G
    have "localUri = ?p" "?p \<in> entries w1" by simp_all
    moreover have "downloads w1 = downloads w @ [(?b, ?p)]"
      using downloadAndCache_downloads [of dev ?b date w] G by simp
    ultimately show ?thesis using ok2 by simp
  qed
  then have "getImage dev nasaUrl' storagePath' date w1 = (Inr localUri, w1)"
    using getImage_hit [of dev date w1 nasaUrl' storagePath'] by simp
  with key show ?thesis by simp
qed

theorem getImage_idempotent_witness:
  "getCacheFilePath (demo_device no_invoke hd_down) ''2025-10-04'' \<notin> entries empty_world
   \<and> fst (getImage (demo_device no_invoke hd_down) (Some ''https://apod.example/m31_hd.jpg'')
        (Some ''nasa-images/2025-10-04-m31.jpg'') ''2025-10-04'' empty_world)
      = Inr ''file:///cache/nasa-images/2025-10-04.jpg''
   \<and> getImage (demo_device no_invoke hd_down) None None ''2025-10-04''
        (snd (getImage (demo_device no_invoke hd_down) (Some ''https://apod.example/m31_hd.jpg'')
           (Some ''nasa-images/2025-10-04-m31.jpg'') ''2025-10-04'' empty_world))
      = (Inr ''file:///cache/nasa-images/2025-10-04.jpg'',
         snd (getImage (demo_device no_invoke hd_down) (Some ''https://apod.example/m31_hd.jpg'')
           (Some ''nasa-images/2025-10-04-m31.jpg'') ''2025-10-04'' empty_world))"
proof -
  let ?dev = "demo_device no_invoke hd_down"
  let ?G = "getImage ?dev (Some ''https://apod.example/m31_hd.jpg'')
              (Some ''nasa-images/2025-10-04-m31.jpg'') ''2025-10-04'' empty_world"
  have 1: "getCacheFilePath ?dev ''2025-10-04'' \<notin> entries empty_world"
    by (simp add: empty_world_def)
  have 2: "fst ?G = Inr ''file:///cache/nasa-images/2025-10-04.jpg''"
    by (simp add: cache_defs demo_device_def hd_down_def empty_world_def Let_def)
  then have 3: "?G = (Inr ''file:///cache/nasa-images/2025-10-04.jpg'', snd ?G)"
    by (metis prod.collapse)
  from getImage_idempotent [OF 1 3, of None None] 1 2 show ?thesis by simp
qed

text \<open>
  C9 (as stated): the pipeline runs only for neighbours inside the window from 50 days
  before the clock reading to the clock reading. The day after is tested against the clock
  reading only: for the fifteenth of August, 52 days before a clock reading on the sixth
  of October, the day after is older than the horizon and is resolved all the same.
\<close>

theorem preload_resolves_neighbour_older_than_horizon:
  "addDays (demo_device fourth_only hd_down) 19526400000 1
     < addDays (demo_device fourth_only hd_down) 24019200005 (- MAX_DAYS_BACK)
   \<and> formatDate (demo_device fourth_only hd_down)
        (addDays (demo_device fourth_only hd_down) 19526400000 1) = ''2025-08-16''
   \<and> invocations (snd (preloadAdjacentImages (demo_device fourth_only hd_down)
                          19526400000 24019200005 empty_world)) = [''2025-08-16'']"
proof -
  let ?F = "demo_device fourth_only hd_down"
  have a: "addDays ?F 19526400000 1 = 19612800000" "addDays ?F 19526400000 (- 1) = 19440000000"
    "addDays ?F 24019200005 (- MAX_DAYS_BACK) = 19699200005"
    by (simp_all add: addDays_demo MAX_DAYS_BACK_def)
  show ?thesis
    by (simp add: preloadAdjacentImages_def Let_def a preloadImageForDate_invocations
        formatDate_demo empty_world_def)
qed

text \<open>
  C9 (amended): preloading works on the day before and the day after the given date, each
  behind one test: the day before is resolved exactly when it is not older than the
  horizon of 50 days before the clock reading, the day after exactly when it is not later
  than the clock reading, so the day after is never resolved when it lies in the future.
  For a date inside the window, with the day before not after it and the day after not
  before it, these are exactly the neighbours inside the window. A neighbour that passes
  its test is resolved once, with no retry on another date, and when it resolves to an
  image that can be fetched its file is in the local cache afterwards: the world after
  one preload of an image record is the world after \<^verbatim>\<open>getImage\<close> for it, and a record
  that is not an image is not fetched. Both promises always fulfil, whatever is thrown
  inside, and a primary load whose own record resolves and can be shown ends without an
  error whatever the endpoint and the network answer for the neighbours.
\<close>

theorem preload_neighbours_one_sided:
  assumes "yesterday = addDays dev date (- 1)" and "tomorrow = addDays dev date 1"
      and "oldestDate = addDays dev today (- MAX_DAYS_BACK)"
      and "W = snd (preloadAdjacentImages dev date today w)"
  shows "fst (preloadAdjacentImages dev date today w) = Inr ()
       \<and> invocations W = invocations w
            @ (if oldestDate \<le> yesterday then [formatDate dev yesterday] else [])
            @ (if tomorrow \<le> today then [formatDate dev tomorrow] else [])
       \<and> (oldestDate \<le> date \<and> date \<le> today \<and> yesterday \<le> date \<and> date \<le> tomorrow
            \<longrightarrow> invocations W = invocations w @ map (formatDate dev)
                  (filter (\<lambda>n. oldestDate \<le> n \<and> n \<le> today) [yesterday, tomorrow]))
       \<and> (oldestDate \<le> yesterday \<and> resolves dev (formatDate dev yesterday) ry
            \<and> img_media_type (resp_data ry) = ''image'' \<and> downloadable dev (resp_data ry)
            \<longrightarrow> getCacheFilePath dev (formatDate dev yesterday) \<in> entries W)
       \<and> (tomorrow \<le> today \<and> resolves dev (formatDate dev tomorrow) rt
            \<and> img_media_type (resp_data rt) = ''image'' \<and> downloadable dev (resp_data rt)
            \<longrightarrow> getCacheFilePath dev (formatDate dev tomorrow) \<in> entries W)
       \<and> fst (preloadImageForDate dev d w) = Inr ()
       \<and> invocations (snd (preloadImageForDate dev d w)) = invocations w @ [formatDate dev d]
       \<and> (resolves dev (formatDate dev d) rd
            \<longrightarrow> snd (preloadImageForDate dev d w) =
                (if img_media_type (resp_data rd) = ''image''
                 then snd (getImage dev (js_or (img_hdurl (resp_data rd)) (Some (img_url (resp_data rd))))
                             (img_storage_path (resp_data rd)) (formatDate dev d)
                             (w\<lparr>invocations := invocations w @ [formatDate dev d]\<rparr>))
                 else w\<lparr>invocations := invocations w @ [formatDate dev d]\<rparr>))
       \<and> (resolves dev (formatDate dev date) response
            \<and> (img_media_type (resp_data response) = ''image'' \<longrightarrow> downloadable dev (resp_data response))
          \<longrightarrow> error (fst (loadImageForDate dev date r (ui, w))) = None
              \<and> imageData (fst (loadImageForDate dev date r (ui, w))) = Some (resp_data response))"
proof -
  let ?w1 = "if oldestDate \<le> yesterday then snd (preloadImageForDate dev yesterday w) else w"
  have W: "W = (if tomorrow \<le> today then snd (preloadImageForDate dev tomorrow ?w1) else ?w1)"
    using assms by (simp add: preloadAdjacentImages_def Let_def)
  have a: "fst (preloadAdjacentImages dev date today w) = Inr ()"
    by (simp add: preloadAdjacentImages_def Let_def)
  have b: "invocations W = invocations w
            @ (if oldestDate \<le> yesterday then [formatDate dev yesterday] else [])
            @ (if tomorrow \<le> today then [formatDate dev tomorrow] else [])"
    by (simp add: W preloadImageForDate_invocations)
  have c: "oldestDate \<le> date \<and> date \<le> today \<and> yesterday \<le> date \<and> date \<le> tomorrow
            \<longrightarrow> invocations W = invocations w @ map (formatDate dev)
                  (filter (\<lambda>n. oldestDate \<le> n \<and> n \<le> today) [yesterday, tomorrow])"
    by (auto simp: b)
  have m: "entries ?w1 \<subseteq> entries W"
    using preloadImageForDate_entries_mono [of ?w1 dev tomorrow] by (simp add: W)
  have y: "oldestDate \<le> yesterday \<and> resolves dev (formatDate dev yesterday) ry
            \<and> img_media_type (resp_data ry) = ''image'' \<and> downloadable dev (resp_data ry)
            \<longrightarrow> getCacheFilePath dev (formatDate dev yesterday) \<in> entries W"
  proof
    assume h: "oldestDate \<le> yesterday \<and> resolves dev (formatDate dev yesterday) ry
            \<and> img_media_type (resp_data ry) = ''image'' \<and> downloadable dev (resp_data ry)"
    then have "getCacheFilePath dev (formatDate dev yesterday)
                 \<in> entries (snd (preloadImageForDate dev yesterday w))"
      by (intro preloadImageForDate_caches [of dev yesterday ry]) simp_all
    with h have "getCacheFilePath dev (formatDate dev yesterday) \<in> entries ?w1" by simp
    with m show "getCacheFilePath dev (formatDate dev yesterday) \<in> entries W" by blast
  qed
  have t: "tomorrow \<le> today \<and> resolves dev (formatDate dev tomorrow) rt
            \<and> img_media_type (resp_data rt) = ''image'' \<and> downloadable dev (resp_data rt)
            \<longrightarrow> getCacheFilePath dev (formatDate dev tomorrow) \<in> entries W"
  proof
    assume h: "tomorrow \<le> today \<and> resolves dev (formatDate dev tomorrow) rt
            \<and> img_media_type (resp_data rt) = ''image'' \<and> downloadable dev (resp_data rt)"
    then have "getCacheFilePath dev (formatDate dev tomorrow)
                 \<in> entries (snd (preloadImageForDate dev tomorrow ?w1))"
      by (intro preloadImageForDate_caches [of dev tomorrow rt]) simp_all
    with h show "getCacheFilePath dev (formatDate dev tomorrow) \<in> entries W"
      by (simp add: W)
  qed
  have p: "resolves dev (formatDate dev d) rd
            \<longrightarrow> snd (preloadImageForDate dev d w) =
                (if img_media_type (resp_data rd) = ''image''
                 then snd (getImage dev (js_or (img_hdurl (resp_data rd)) (Some (img_url (resp_data rd))))
                             (img_storage_path (resp_data rd)) (formatDate dev d)
                             (w\<lparr>invocations := invocations w @ [formatDate dev d]\<rparr>))
                 else w\<lparr>invocations := invocations w @ [formatDate dev d]\<rparr>)"
    using preloadImageForDate_world [of dev d rd w] by blast
  have q: "resolves dev (formatDate dev date) response
            \<and> (img_media_type (resp_data response) = ''image'' \<longrightarrow> downloadable dev (resp_data response))
          \<longrightarrow> error (fst (loadImageForDate dev date r (ui, w))) = None
              \<and> imageData (fst (loadImageForDate dev date r (ui, w))) = Some (resp_data response)"
  proof
    assume h: "resolves dev (formatDate dev date) response
            \<and> (img_media_type (resp_data response) = ''image'' \<longrightarrow> downloadable dev (resp_data response))"
    from load_success [of dev date response r ui w] h
    obtain w' where "loadImageForDate dev date r (ui, w)
           = (ui\<lparr>loading := False, error := None,
                 localImageUri := Some (shown dev (resp_data response) (formatDate dev date)),
                 imageData := Some (resp_data response),
                 console := console ui @ [(formatDate dev date, r)]\<rparr>, w')"
      by blast
    then show "error (fst (loadImageForDate dev date r (ui, w))) = None
              \<and> imageData (fst (loadImageForDate dev date r (ui, w))) = Some (resp_data response)"
      by simp
  qed
  from a b c y t p q show ?thesis
    by (simp only: preloadImageForDate_settles preloadImageForDate_invocations simp_thms)
qed

theorem preload_neighbours_one_sided_witness:
  "invocations (snd (preloadAdjacentImages (demo_device fourth_only hd_down)
                       23932800000 24019200005 empty_world)) = [''2025-10-04'', ''2025-10-06'']
   \<and> ''file:///cache/nasa-images/2025-10-04.jpg''
        \<in> entries (snd (preloadAdjacentImages (demo_device fourth_only hd_down)
                          23932800000 24019200005 empty_world))
   \<and> fst (preloadAdjacentImages (demo_device fourth_only hd_down)
             23932800000 24019200005 empty_world) = Inr ()
   \<and> downloads (snd (preloadImageForDate (demo_device fourth_only hd_down) 23846400000 empty_world))
       = [(''https://apod.example/m31_hd.jpg'', ''file:///cache/nasa-images/2025-10-04.jpg''),
          (''https://blob.example/nasa-images/2025-10-04-m31.jpg'',
           ''file:///cache/nasa-images/2025-10-04.jpg'')]
   \<and> error (fst (loadImageForDate (demo_device fourth_only hd_down) 23846400000 0
                    (blank_screen, empty_world))) = None"
proof -
  let ?F = "demo_device fourth_only hd_down"
  let ?resp = "\<lparr>resp_data = demo_image, resp_cached = True\<rparr>"
  let ?W = "snd (preloadAdjacentImages ?F 23932800000 24019200005 empty_world)"
  have y: "(23846400000::int) = addDays ?F 23932800000 (- 1)"
    and t: "(24019200000::int) = addDays ?F 23932800000 1"
    and o: "(19699200005::int) = addDays ?F 24019200005 (- MAX_DAYS_BACK)"
    by (simp_all add: addDays_demo MAX_DAYS_BACK_def)
  have y4: "(23760000000::int) = addDays ?F 23846400000 (- 1)"
    and t4: "(23932800000::int) = addDays ?F 23846400000 1"
    by (simp_all add: addDays_demo)
  have r4: "resolves ?F (formatDate ?F 23846400000) ?resp"
    by (simp add: formatDate_demo) (simp add: resolves_def demo_device_def fourth_only_def)
  have im: "img_media_type (resp_data ?resp) = ''image''" by (simp add: demo_image_def)
  have dl: "downloadable ?F (resp_data ?resp)"
    by (simp add: downloadable_def demo_image_def demo_device_def hd_down_def js_or_def
        getNasaImagePublicUrl_def)
  note T = preload_neighbours_one_sided [OF y t o refl, of empty_world ?resp _ 23846400000 ?resp]
  note U = preload_neighbours_one_sided [OF y4 t4 o refl, of empty_world _ _ _ _ ?resp 0 blank_screen]
  from T have "(19699200005::int) \<le> 23932800000 \<and> (23932800000::int) \<le> 24019200005
                 \<and> (23846400000::int) \<le> 23932800000 \<and> (23932800000::int) \<le> 24019200000
      \<longrightarrow> invocations ?W = invocations empty_world @ map (formatDate ?F)
            (filter (\<lambda>n. 19699200005 \<le> n \<and> n \<le> 24019200005) [23846400000, 24019200000])"
    by blast
  then have i: "invocations ?W = [''2025-10-04'', ''2025-10-06'']"
    by (simp add: formatDate_demo empty_world_def)
  from T r4 im dl have "getCacheFilePath ?F (formatDate ?F 23846400000) \<in> entries ?W"
    by simp
  then have e: "''file:///cache/nasa-images/2025-10-04.jpg'' \<in> entries ?W"
    by (simp only: formatDate_demo) (simp add: getCacheFilePath_def CACHE_DIR_def demo_device_def)
  from T have s: "fst (preloadAdjacentImages ?F 23932800000 24019200005 empty_world) = Inr ()"
    by blast
  from T r4 im have "snd (preloadImageForDate ?F 23846400000 empty_world)
      = snd (getImage ?F (js_or (img_hdurl (resp_data ?resp)) (Some (img_url (resp_data ?resp))))
               (img_storage_path (resp_data ?resp)) (formatDate ?F 23846400000)
               (empty_world\<lparr>invocations := invocations empty_world @ [formatDate ?F 23846400000]\<rparr>))"
    by simp
  then have d: "downloads (snd (preloadImageForDate ?F 23846400000 empty_world))
       = [(''https://apod.example/m31_hd.jpg'', ''file:///cache/nasa-images/2025-10-04.jpg''),
          (''https://blob.example/nasa-images/2025-10-04-m31.jpg'',
           ''file:///cache/nasa-images/2025-10-04.jpg'')]"
    by (simp add: formatDate_demo)
      (simp add: cache_defs demo_device_def hd_down_def demo_image_def empty_world_def Let_def)
  from U r4 im dl have p: "error (fst (loadImageForDate ?F 23846400000 0 (blank_screen, empty_world))) = None"
    by simp
  from i e s d p show ?thesis by simp
qed

text \<open>
  C10: when the invocation ends with an error that does not carry the code NASA_NO_DATA,
  that is an HTTP error whose JSON object has another code or none, a relay error or a
  fetch error, \<^verbatim>\<open>getNasaImageOfDay\<close> does not throw: it returns the data value that
  came with the error, which is null for a failed invocation.
\<close>

theorem getNasaImageOfDay_returns_data_on_other_errors:
  assumes "inv_error (functions_invoke dev date) = Some e"
      and "case e of
             FunctionsHttpError body \<Rightarrow>
               (case body of JsonObject j \<Rightarrow> err_errorCode j \<noteq> Some ''NASA_NO_DATA'' | _ \<Rightarrow> False)
           | _ \<Rightarrow> True"
  shows "fst (getNasaImageOfDay dev date w) = Inr (inv_data (functions_invoke dev date))"
  using assms
  by (auto simp: getNasaImageOfDay_def Let_def split: functions_error.splits json_body.splits)

theorem getNasaImageOfDay_returns_data_on_other_errors_witness:
  "inv_error (functions_invoke (demo_device no_invoke hd_down) ''2025-10-04'')
      = Some (FunctionsFetchError ''offline'')
   \<and> fst (getNasaImageOfDay (demo_device no_invoke hd_down) ''2025-10-04'' empty_world) = Inr None
   \<and> fst (getNasaImageOfDay
            (demo_device (\<lambda>d. \<lparr>inv_data = None, inv_error = Some (FunctionsHttpError (JsonObject
                \<lparr>err_error = Some ''Invalid date format'', err_errorCode = None, err_date = None\<rparr>))\<rparr>)
               hd_down) ''10-05-2024'' empty_world) = Inr None"
proof -
  let ?dev = "demo_device no_invoke hd_down"
  let ?j = "\<lparr>err_error = Some ''Invalid date format'', err_errorCode = None, err_date = None\<rparr>"
  let ?dev' = "demo_device (\<lambda>d. \<lparr>inv_data = None,
                  inv_error = Some (FunctionsHttpError (JsonObject ?j))\<rparr>) hd_down"
  have 1: "inv_error (functions_invoke ?dev ''2025-10-04'') = Some (FunctionsFetchError ''offline'')"
    by (simp add: demo_device_def no_invoke_def)
  have 2: "inv_error (functions_invoke ?dev' ''10-05-2024'') = Some (FunctionsHttpError (JsonObject ?j))"
    by (simp add: demo_device_def)
  have a: "fst (getNasaImageOfDay ?dev ''2025-10-04'' empty_world)
             = Inr (inv_data (functions_invoke ?dev ''2025-10-04''))"
    by (rule getNasaImageOfDay_returns_data_on_other_errors [OF 1]) simp
  have b: "fst (getNasaImageOfDay ?dev' ''10-05-2024'' empty_world)
             = Inr (inv_data (functions_invoke ?dev' ''10-05-2024''))"
    by (rule getNasaImageOfDay_returns_data_on_other_errors [OF 2]) simp
  from 1 a b show ?thesis by (simp add: demo_device_def no_invoke_def)
qed

end
